theory Spec2Isabelle
  imports Complex_Main "HOL-Library.Product_Lexorder"
begin

text \<open>
  A model of the transaction core of the Bitcore wallet service and client:
  the proposal state machine (\<^verbatim>\<open>TxProposal\<close>), the Bitcoin chain adapter
  with its fee estimate and coin selection (\<^verbatim>\<open>BtcChain\<close>), and the client's
  \<^verbatim>\<open>Verifier\<close> with \<^verbatim>\<open>Utils.deriveAddress\<close>.  Objects are records, thrown
  exceptions are error values, loops are recursive functions over the list they
  walk, and the calls into \<^verbatim>\<open>bitcore-lib\<close> and \<^verbatim>\<open>crypto-wallet-core\<close> are
  parameters.  The definitions come first, the properties after them.
\<close>

section \<open>JavaScript values used by the wallet code\<close>

text \<open>
  A JavaScript string is truthy when it is defined and not empty.  Optional
  string properties are \<open>string option\<close>, with \<open>None\<close> for
  \<^verbatim>\<open>undefined\<close>.
\<close>

definition truthy :: "string option \<Rightarrow> bool" where
  "truthy s = (case s of None \<Rightarrow> False | Some v \<Rightarrow> v \<noteq> [])"

text \<open>\<^verbatim>\<open>a || b\<close> on optional strings: the first operand when it is truthy.\<close>

definition js_or :: "string option \<Rightarrow> string option \<Rightarrow> string option" where
  "js_or a b = (if truthy a then a else b)"

text \<open>\<^verbatim>\<open>xs[i]\<close>: \<^verbatim>\<open>undefined\<close> out of range.\<close>

definition js_index :: "'a list \<Rightarrow> nat \<Rightarrow> 'a option" where
  "js_index xs i = (if i < length xs then Some (xs ! i) else None)"

section \<open>The transaction proposal (model/txproposal.ts)\<close>

datatype TxProposalStatus = Temporary | Pending | Accepted | Rejected | Broadcasted

datatype action_type = Accept | Reject

text \<open>
  A vote action as \<^verbatim>\<open>TxProposalAction.create\<close> receives it from
  \<^verbatim>\<open>addAction\<close>: copayer, type, signatures, xpub and comment.
\<close>

record TxProposalAction =
  act_copayerId :: string
  act_type :: action_type
  act_signatures :: "string list option"
  act_xpub :: "string option"
  act_comment :: "string option"

datatype script_type = P2SH | P2PKH | P2WPKH | P2WSH | P2TR | UnknownScript

text \<open>
  The type that \<^verbatim>\<open>bitcoreLib.Address(address).type\<close> reports for an output
  address; \<open>OtherAddress\<close> stands for every type outside the four the size
  table names.
\<close>

datatype address_type = PubKeyHash | ScriptHash | WitnessPubKeyHash | WitnessScriptHash | OtherAddress

text \<open>
  An unspent output as the wallet service hands it to the chain code.
  \<open>utxo_amount\<close> is its \<^verbatim>\<open>amount\<close> property, \<open>utxo_satoshis\<close> its value
  in satoshis; \<open>utxo_confirmations\<close> is falsy when zero.
\<close>

record utxo =
  utxo_txid :: string
  utxo_vout :: nat
  utxo_address :: string
  utxo_path :: "string option"
  utxo_satoshis :: int
  utxo_amount :: rat
  utxo_confirmations :: int
  utxo_locked :: bool

text \<open>
  An output of a proposal.  Its address, when it has one, is kept as the type
  that the address parser reports, which is all the size estimate reads.
\<close>

record tx_output =
  out_amount :: int
  out_toAddress :: "address_type option"
  out_script :: "string option"

text \<open>
  The properties of a proposal that the modelled methods read or write.  The
  change address is kept as the type of its address; \<open>txp_fee\<close>,
  \<open>txp_raw\<close>, \<open>txp_txid\<close> and the like are \<open>None\<close> while
  \<^verbatim>\<open>undefined\<close>.
\<close>

record TxProposal =
  txp_version :: int
  txp_inputs :: "utxo list"
  txp_inputPaths :: "string option list"
  txp_outputs :: "tx_output list"
  txp_outputOrder :: "nat list"
  txp_changeAddress :: "address_type option"
  txp_walletM :: int
  txp_walletN :: int
  txp_requiredSignatures :: int
  txp_requiredRejections :: int
  txp_status :: TxProposalStatus
  txp_actions :: "TxProposalAction list"
  txp_addressType :: script_type
  txp_feePerKb :: rat
  txp_fee :: "int option"
  txp_excludeUnconfirmedUtxos :: bool
  txp_replaceTxByFee :: bool
  txp_instantAcceptanceEscrow :: "int option"
  txp_signingMethod :: "string option"
  txp_multiTx :: bool
  txp_raw :: "string option"
  txp_txid :: "string option"
  txp_txids :: "string list option"
  txp_broadcastedOn :: "int option"

datatype txp_error =
    InvalidArgument
  | FailedState

subsection \<open>TxProposal.create\<close>

record create_opts =
  co_version :: "int option"
  co_network_ok :: bool
  co_outputs :: "tx_output list"
  co_inputs :: "utxo list"
  co_changeAddress :: "address_type option"
  co_walletM :: int
  co_walletN :: int
  co_addressType :: "script_type option"
  co_feePerKb :: rat
  co_fee :: "int option"
  co_excludeUnconfirmedUtxos :: bool
  co_replaceTxByFee :: bool
  co_instantAcceptanceEscrow :: "int option"
  co_signingMethod :: "string option"
  co_multiTx :: bool
  co_noShuffleOutputs :: bool

text \<open>\<^verbatim>\<open>setInputs\<close>: the inputs and, beside them, their derivation paths.\<close>

definition setInputs :: "TxProposal \<Rightarrow> utxo list \<Rightarrow> TxProposal" where
  "setInputs p ins = p\<lparr>txp_inputs := ins, txp_inputPaths := map utxo_path ins\<rparr>"

text \<open>
  \<^verbatim>\<open>TxProposal.create\<close>.  \<open>co_network_ok\<close> is the outcome of the network
  lookup in \<^verbatim>\<open>Constants.NETWORKS\<close>; \<open>shuffle\<close> is lodash's random
  \<^verbatim>\<open>_.shuffle\<close>.  A given version must be at least 3 and the stored version at
  most 3; a missing address type defaults from the number of copayers.
\<close>

definition create :: "(nat list \<Rightarrow> nat list) \<Rightarrow> create_opts \<Rightarrow> txp_error + TxProposal" where
  "create shuffle opts =
    (if \<not> co_network_ok opts then Inl InvalidArgument
     else if (case co_version opts of None \<Rightarrow> False | Some v \<Rightarrow> v \<noteq> 0 \<and> \<not> 3 \<le> v)
       then Inl InvalidArgument
     else
       let version = (case co_version opts of None \<Rightarrow> 3 | Some v \<Rightarrow> if v = 0 then 3 else v) in
       if \<not> version \<le> 3 then Inl FailedState
       else
         let numOutputs = length (co_outputs opts)
               + (if \<not> co_multiTx opts then 1 else 0)
               + (case co_instantAcceptanceEscrow opts of None \<Rightarrow> 0
                   | Some e \<Rightarrow> if e \<noteq> 0 then 1 else 0);
             order = [0 ..< numOutputs];
             addressType = (case co_addressType opts of
                  Some t \<Rightarrow> t
                | None \<Rightarrow> if 1 < co_walletN opts then P2SH else P2PKH)
         in
         if addressType = UnknownScript then Inl FailedState
         else Inr (setInputs
           \<lparr> txp_version = version,
             txp_inputs = [],
             txp_inputPaths = [],
             txp_outputs = co_outputs opts,
             txp_outputOrder = (if \<not> co_noShuffleOutputs opts then shuffle order else order),
             txp_changeAddress = co_changeAddress opts,
             txp_walletM = co_walletM opts,
             txp_walletN = co_walletN opts,
             txp_requiredSignatures = co_walletM opts,
             txp_requiredRejections = min (co_walletM opts) (co_walletN opts - co_walletM opts + 1),
             txp_status = Temporary,
             txp_actions = [],
             txp_addressType = addressType,
             txp_feePerKb = co_feePerKb opts,
             txp_fee = co_fee opts,
             txp_excludeUnconfirmedUtxos = co_excludeUnconfirmedUtxos opts,
             txp_replaceTxByFee = co_replaceTxByFee opts,
             txp_instantAcceptanceEscrow = co_instantAcceptanceEscrow opts,
             txp_signingMethod = co_signingMethod opts,
             txp_multiTx = co_multiTx opts,
             txp_raw = None,
             txp_txid = None,
             txp_txids = None,
             txp_broadcastedOn = None \<rparr>
           (co_inputs opts)))"

subsection \<open>Votes and status\<close>

text \<open>
  \<^verbatim>\<open>_.countBy(this.actions, 'type')\<close> has no entry for a type that never
  occurs, and \<^verbatim>\<open>undefined >= k\<close> is false for every \<open>k\<close>: a count
  of zero never meets the quorum, whatever the quorum is.
\<close>

definition countBy_type :: "TxProposalAction list \<Rightarrow> action_type \<Rightarrow> nat option" where
  "countBy_type acts t =
    (let c = length (filter (\<lambda>a. act_type a = t) acts) in if c = 0 then None else Some c)"

definition isAccepted :: "TxProposal \<Rightarrow> bool" where
  "isAccepted p = (case countBy_type (txp_actions p) Accept of
      None \<Rightarrow> False | Some c \<Rightarrow> txp_requiredSignatures p \<le> int c)"

definition isRejected :: "TxProposal \<Rightarrow> bool" where
  "isRejected p = (case countBy_type (txp_actions p) Reject of
      None \<Rightarrow> False | Some c \<Rightarrow> txp_requiredRejections p \<le> int c)"

definition updateStatus :: "TxProposal \<Rightarrow> TxProposal" where
  "updateStatus p =
    (if txp_status p \<noteq> Pending then p
     else if isRejected p then p\<lparr>txp_status := Rejected\<rparr>
     else if isAccepted p then p\<lparr>txp_status := Accepted\<rparr>
     else p)"

definition addAction ::
  "TxProposal \<Rightarrow> string \<Rightarrow> action_type \<Rightarrow> string option \<Rightarrow> string list option \<Rightarrow> string option
    \<Rightarrow> TxProposal" where
  "addAction p copayerId ty comment signatures xpub =
    updateStatus (p\<lparr>txp_actions := txp_actions p @
      [\<lparr>act_copayerId = copayerId, act_type = ty, act_signatures = signatures,
        act_xpub = xpub, act_comment = comment\<rparr>]\<rparr>)"

definition reject :: "TxProposal \<Rightarrow> string \<Rightarrow> string option \<Rightarrow> TxProposal" where
  "reject p copayerId reason = addAction p copayerId Reject reason None None"

definition isTemporary :: "TxProposal \<Rightarrow> bool" where
  "isTemporary p = (txp_status p = Temporary)"

definition isPending :: "TxProposal \<Rightarrow> bool" where
  "isPending p = (txp_status p \<notin> set [Temporary, Broadcasted, Rejected])"

definition isBroadcasted :: "TxProposal \<Rightarrow> bool" where
  "isBroadcasted p = (txp_status p = Broadcasted)"

text \<open>
  \<^verbatim>\<open>toObject\<close>: a deep clone of the proposal carrying one more property,
  \<^verbatim>\<open>isPending\<close>; the pair holds the clone and that property.
\<close>

definition toObject :: "TxProposal \<Rightarrow> TxProposal \<times> bool" where
  "toObject p = (p, isPending p)"

text \<open>
  \<^verbatim>\<open>setBroadcasted\<close>: the only check is that \<^verbatim>\<open>this.txid\<close> is truthy;
  \<open>now\<close> is \<^verbatim>\<open>Date.now()\<close> in milliseconds.
\<close>

definition setBroadcasted :: "int \<Rightarrow> TxProposal \<Rightarrow> txp_error + TxProposal" where
  "setBroadcasted now p =
    (if \<not> truthy (txp_txid p) then Inl FailedState
     else Inr (p\<lparr>txp_status := Broadcasted, txp_broadcastedOn := Some (now div 1000)\<rparr>))"


section \<open>Signatures on the Bitcore transaction (chain/btc/index.ts)\<close>

text \<open>
  The Bitcore transaction under construction: its input objects, which collect
  the signatures, and everything else (outputs, fee, version).
\<close>

record ('inp, 'r) bitcore_tx =
  tx_inputs :: "'inp list"
  tx_rest :: 'r

text \<open>
  The object \<^verbatim>\<open>addSignature\<close> receives: input index, parsed signature
  and public key (its signature hash type is a constant of the library).
\<close>

record ('sg, 'pk) tx_signature =
  ts_inputIndex :: nat
  ts_signature :: 'sg
  ts_publicKey :: 'pk

text \<open>
  The operations of \<^verbatim>\<open>bitcoreLib\<close> that the chain code calls.  They belong
  to the library, so they are parameters; \<open>None\<close> is a thrown exception.
  \<^item> \<open>bl_buildTx\<close>: the unsigned transaction \<^verbatim>\<open>getBitcoreTx\<close> assembles from
    the proposal (inputs, outputs, fee, change, output order and its state checks);
  \<^item> \<open>bl_HDPublicKey\<close>: \<^verbatim>\<open>new HDPublicKey(xpub)\<close>;
  \<^item> \<open>bl_deriveChild\<close>: \<^verbatim>\<open>x.deriveChild(path).publicKey\<close>, the path possibly
    \<^verbatim>\<open>undefined\<close>;
  \<^item> \<open>bl_Signature_fromString\<close>: \<^verbatim>\<open>crypto.Signature.fromString\<close>;
  \<^item> \<open>bl_addSignature\<close>: \<^verbatim>\<open>input.addSignature(tx, s, signingMethod)\<close>, which
    returns the input with the signature stored or throws;
  \<^item> \<open>bl_uncheckedSerialize\<close>, \<open>bl_id\<close>, \<open>bl_txids\<close>: serialisation and ids.
\<close>

record ('hd, 'pk, 'sg, 'inp, 'r) bitcoreLib =
  bl_buildTx :: "TxProposal \<Rightarrow> ('inp, 'r) bitcore_tx option"
  bl_HDPublicKey :: "string \<Rightarrow> 'hd option"
  bl_deriveChild :: "'hd \<Rightarrow> string option \<Rightarrow> 'pk option"
  bl_Signature_fromString :: "string \<Rightarrow> 'sg option"
  bl_addSignature ::
    "'inp \<Rightarrow> ('inp, 'r) bitcore_tx \<Rightarrow> ('sg, 'pk) tx_signature \<Rightarrow> string \<Rightarrow> 'inp option"
  bl_uncheckedSerialize :: "('inp, 'r) bitcore_tx \<Rightarrow> string"
  bl_id :: "('inp, 'r) bitcore_tx \<Rightarrow> string"
  bl_txids :: "('inp, 'r) bitcore_tx \<Rightarrow> string list option"

text \<open>
  The body of the \<^verbatim>\<open>try\<close> inside the signature loop, at counter \<open>i\<close>:
  parse the signature, derive the key at \<^verbatim>\<open>inputPaths[i]\<close>, add the signature
  to \<^verbatim>\<open>tx.inputs[i]\<close>.  Any exception (also \<^verbatim>\<open>tx.inputs[i]\<close> being
  \<^verbatim>\<open>undefined\<close>) gives \<open>None\<close>.
\<close>

definition trySignature ::
  "('hd, 'pk, 'sg, 'inp, 'r) bitcoreLib \<Rightarrow> 'hd \<Rightarrow> string option list \<Rightarrow> string
    \<Rightarrow> ('inp, 'r) bitcore_tx \<Rightarrow> nat \<Rightarrow> string \<Rightarrow> ('inp, 'r) bitcore_tx option" where
  "trySignature lib x inputPaths signingMethod tx i signatureHex =
    (case bl_Signature_fromString lib signatureHex of
       None \<Rightarrow> None
     | Some signature \<Rightarrow>
        (case bl_deriveChild lib x (case js_index inputPaths i of None \<Rightarrow> None | Some p \<Rightarrow> p) of
           None \<Rightarrow> None
         | Some pub \<Rightarrow>
            (case js_index (tx_inputs tx) i of
               None \<Rightarrow> None
             | Some inp \<Rightarrow>
                (case bl_addSignature lib inp tx
                        \<lparr>ts_inputIndex = i, ts_signature = signature, ts_publicKey = pub\<rparr>
                        signingMethod of
                   None \<Rightarrow> None
                 | Some inp' \<Rightarrow> Some (tx\<lparr>tx_inputs := (tx_inputs tx)[i := inp']\<rparr>)))))"

text \<open>
  The loop \<^verbatim>\<open>for (const signatureHex of signatures)\<close>: the counter \<open>i\<close>
  moves on only when the body went through; a caught exception leaves it where
  it is, and the next signature is tried at the same input.
\<close>

fun signaturesLoop ::
  "('hd, 'pk, 'sg, 'inp, 'r) bitcoreLib \<Rightarrow> 'hd \<Rightarrow> string option list \<Rightarrow> string
    \<Rightarrow> ('inp, 'r) bitcore_tx \<Rightarrow> nat \<Rightarrow> string list \<Rightarrow> ('inp, 'r) bitcore_tx \<times> nat" where
  "signaturesLoop lib x inputPaths signingMethod tx i [] = (tx, i)"
| "signaturesLoop lib x inputPaths signingMethod tx i (s # ss) =
    (case trySignature lib x inputPaths signingMethod tx i s of
       Some tx' \<Rightarrow> signaturesLoop lib x inputPaths signingMethod tx' (Suc i) ss
     | None \<Rightarrow> signaturesLoop lib x inputPaths signingMethod tx i ss)"

text \<open>
  \<^verbatim>\<open>addSignaturesToBitcoreTx\<close>.  It throws (\<open>None\<close>) when the numbers of
  signatures and of proposal inputs differ, when the extended public key does
  not parse, and when the counter after the loop is not the number of
  transaction inputs.
\<close>

definition addSignaturesToBitcoreTx ::
  "('hd, 'pk, 'sg, 'inp, 'r) bitcoreLib \<Rightarrow> ('inp, 'r) bitcore_tx \<Rightarrow> utxo list
    \<Rightarrow> string option list \<Rightarrow> string list \<Rightarrow> string \<Rightarrow> string option
    \<Rightarrow> ('inp, 'r) bitcore_tx option" where
  "addSignaturesToBitcoreTx lib tx inputs inputPaths signatures xpub signingMethod =
    (let method = (case js_or signingMethod (Some ''ecdsa'') of None \<Rightarrow> [] | Some m \<Rightarrow> m) in
     if length signatures \<noteq> length inputs then None
     else case bl_HDPublicKey lib xpub of
       None \<Rightarrow> None
     | Some x \<Rightarrow>
        (case signaturesLoop lib x inputPaths method tx 0 signatures of
           (tx', i) \<Rightarrow> if i \<noteq> length (tx_inputs tx') then None else Some tx'))"

text \<open>
  \<^verbatim>\<open>getCurrentSignatures\<close>: signatures and xpub of every accept action.
\<close>

definition getCurrentSignatures :: "TxProposal \<Rightarrow> (string list option \<times> string option) list" where
  "getCurrentSignatures p =
    map (\<lambda>a. (act_signatures a, act_xpub a)) (filter (\<lambda>a. act_type a = Accept) (txp_actions p))"

text \<open>
  Replaying the stored signatures: an action without signatures or xpub makes
  the call throw (\<^verbatim>\<open>signatures.length\<close> of \<^verbatim>\<open>undefined\<close>, or the key parser).
\<close>

fun replaySignatures ::
  "('hd, 'pk, 'sg, 'inp, 'r) bitcoreLib \<Rightarrow> TxProposal \<Rightarrow> ('inp, 'r) bitcore_tx
    \<Rightarrow> (string list option \<times> string option) list \<Rightarrow> ('inp, 'r) bitcore_tx option" where
  "replaySignatures lib p tx [] = Some tx"
| "replaySignatures lib p tx ((sigs, xpub) # rest) =
    (case (sigs, xpub) of
       (Some ss, Some xp) \<Rightarrow>
         (case addSignaturesToBitcoreTx lib tx (txp_inputs p) (txp_inputPaths p) ss xp
                 (txp_signingMethod p) of
            None \<Rightarrow> None
          | Some tx' \<Rightarrow> replaySignatures lib p tx' rest)
     | _ \<Rightarrow> None)"

text \<open>
  \<^verbatim>\<open>getBitcoreTx(txp, opts = { signed: true })\<close>: a multi-transaction proposal
  is refused, the library assembles the unsigned transaction, and with
  \<^verbatim>\<open>opts.signed\<close> the signatures of the accept votes so far are added.
\<close>

definition getBitcoreTx ::
  "('hd, 'pk, 'sg, 'inp, 'r) bitcoreLib \<Rightarrow> TxProposal \<Rightarrow> bool \<Rightarrow> ('inp, 'r) bitcore_tx option" where
  "getBitcoreTx lib p signed =
    (if txp_multiTx p then None
     else case bl_buildTx lib p of
       None \<Rightarrow> None
     | Some t \<Rightarrow> if signed then replaySignatures lib p t (getCurrentSignatures p) else Some t)"

text \<open>
  \<^verbatim>\<open>TxProposal.sign\<close>, with \<^verbatim>\<open>ChainService\<close> dispatching to the chain above.
  The result is the returned boolean and the proposal afterwards; every
  exception inside the \<^verbatim>\<open>try\<close> returns \<^verbatim>\<open>false\<close>.
\<close>

definition sign ::
  "('hd, 'pk, 'sg, 'inp, 'r) bitcoreLib \<Rightarrow> TxProposal \<Rightarrow> string \<Rightarrow> string list \<Rightarrow> string
    \<Rightarrow> bool \<times> TxProposal" where
  "sign lib p copayerId signatures xpub =
    (case getBitcoreTx lib p True of
       None \<Rightarrow> (False, p)
     | Some tx0 \<Rightarrow>
        (case addSignaturesToBitcoreTx lib tx0 (txp_inputs p) (txp_inputPaths p) signatures xpub
                (txp_signingMethod p) of
           None \<Rightarrow> (False, p)
         | Some tx \<Rightarrow>
            (let p1 = addAction p copayerId Accept None (Some signatures) (Some xpub) in
             if txp_status p1 = Accepted
             then (True, p1\<lparr>txp_raw := Some (bl_uncheckedSerialize lib tx),
                           txp_txid := Some (bl_id lib tx),
                           txp_txids := (if txp_multiTx p1
                              then (case bl_txids lib tx of
                                      Some ids \<Rightarrow> Some ids | None \<Rightarrow> Some [bl_id lib tx])
                              else txp_txids p1)\<rparr>)
             else (True, p1))))"

text \<open>A vote cast on a proposal: an accept through \<open>sign\<close>, or a reject.\<close>

datatype vote = AcceptVote string "string list" string | RejectVote string "string option"

definition applyVote ::
  "('hd, 'pk, 'sg, 'inp, 'r) bitcoreLib \<Rightarrow> TxProposal \<Rightarrow> vote \<Rightarrow> TxProposal" where
  "applyVote lib p v =
    (case v of
       AcceptVote copayerId signatures xpub \<Rightarrow> snd (sign lib p copayerId signatures xpub)
     | RejectVote copayerId reason \<Rightarrow> reject p copayerId reason)"

definition applyVotes ::
  "('hd, 'pk, 'sg, 'inp, 'r) bitcoreLib \<Rightarrow> TxProposal \<Rightarrow> vote list \<Rightarrow> TxProposal" where
  "applyVotes lib p vs = foldl (applyVote lib) p vs"



section \<open>Size and fee estimation (chain/btc/index.ts)\<close>

text \<open>
  JavaScript numbers are modelled exactly: satoshi amounts and sizes are
  integers, fee rates and fees before rounding are rationals.  The chain object
  holds its two configured margins and the library constant
  \<^verbatim>\<open>bitcoreLib.Transaction.DUST_AMOUNT\<close>.
\<close>

record BtcChain =
  sizeEstimationMargin :: rat
  inputSizeEstimationMargin :: rat
  DUST_AMOUNT :: int

record fee_opts =
  conservativeEstimation :: bool
  fo_instantAcceptanceEscrow :: "int option"

definition MIN_OUTPUT_AMOUNT :: int where
  "MIN_OUTPUT_AMOUNT = 546"

definition MAX_TX_SIZE_IN_KB_BTC :: rat where
  "MAX_TX_SIZE_IN_KB_BTC = 100"

definition UTXO_SELECTION_MAX_SINGLE_UTXO_FACTOR :: int where
  "UTXO_SELECTION_MAX_SINGLE_UTXO_FACTOR = 2"

definition UTXO_SELECTION_MIN_TX_AMOUNT_VS_UTXO_FACTOR :: rat where
  "UTXO_SELECTION_MIN_TX_AMOUNT_VS_UTXO_FACTOR = 1 / 10"

definition UTXO_SELECTION_MAX_FEE_VS_TX_AMOUNT_FACTOR :: rat where
  "UTXO_SELECTION_MAX_FEE_VS_TX_AMOUNT_FACTOR = 5 / 100"

definition UTXO_SELECTION_MAX_FEE_VS_SINGLE_UTXO_FEE_FACTOR :: rat where
  "UTXO_SELECTION_MAX_FEE_VS_SINGLE_UTXO_FEE_FACTOR = 5"

text \<open>\<^verbatim>\<open>Math.round\<close> rounds halves up; \<^verbatim>\<open>Math.ceil\<close> is the ceiling.\<close>

definition Math_round :: "rat \<Rightarrow> int" where
  "Math_round x = \<lfloor>x + 1 / 2\<rfloor>"

definition Math_ceil :: "rat \<Rightarrow> int" where
  "Math_ceil x = \<lceil>x\<rceil>"

text \<open>
  \<^verbatim>\<open>parseInt(x.toFixed(0))\<close>: the nearest integer, a half going away from
  zero (for magnitudes below \<open>10\<^sup>2\<^sup>1\<close>, where \<^verbatim>\<open>toFixed\<close> prints digits).
\<close>

definition toFixed0 :: "rat \<Rightarrow> int" where
  "toFixed0 x = (if x < 0 then - \<lfloor>- x + 1 / 2\<rfloor> else \<lfloor>x + 1 / 2\<rfloor>)"

definition getSizeSafetyMargin :: "BtcChain \<Rightarrow> bool \<Rightarrow> rat" where
  "getSizeSafetyMargin chain conservative = (if conservative then sizeEstimationMargin chain else 0)"

definition getInputSizeSafetyMargin :: "BtcChain \<Rightarrow> bool \<Rightarrow> rat" where
  "getInputSizeSafetyMargin chain conservative =
    (if conservative then inputSizeEstimationMargin chain else 0)"

definition getEstimatedSizeForSingleInput :: "BtcChain \<Rightarrow> TxProposal \<Rightarrow> bool \<Rightarrow> rat" where
  "getEstimatedSizeForSingleInput chain txp conservative =
    (let SIGNATURE_SIZE = 72 + 1;
         PUBKEY_SIZE = 33 + 1;
         inputSafetyMargin = getInputSizeSafetyMargin chain conservative
     in case txp_addressType txp of
          P2PKH \<Rightarrow> 148 + inputSafetyMargin
        | P2WPKH \<Rightarrow> 69 + inputSafetyMargin
        | P2TR \<Rightarrow> 58 + inputSafetyMargin
        | P2WSH \<Rightarrow>
            of_int (Math_ceil (32 + 4 + 1
              + (5 + of_int (txp_requiredSignatures txp) * 74 + of_int (txp_walletN txp) * 34) / 4
              + 4)) + inputSafetyMargin
        | P2SH \<Rightarrow>
            46 + of_int (txp_requiredSignatures txp) * SIGNATURE_SIZE
               + of_int (txp_walletN txp) * PUBKEY_SIZE + inputSafetyMargin
        | UnknownScript \<Rightarrow>
            46 + of_int (txp_requiredSignatures txp) * SIGNATURE_SIZE
               + of_int (txp_walletN txp) * PUBKEY_SIZE + inputSafetyMargin)"

definition getEstimatedSizeForAddressType :: "address_type option \<Rightarrow> int" where
  "getEstimatedSizeForAddressType addressType =
    (let scriptSize = (case addressType of
            Some PubKeyHash \<Rightarrow> 25
          | Some ScriptHash \<Rightarrow> 23
          | Some WitnessPubKeyHash \<Rightarrow> 22
          | Some WitnessScriptHash \<Rightarrow> 34
          | _ \<Rightarrow> 34)
     in scriptSize + 8 + 1)"

text \<open>
  \<^verbatim>\<open>getEstimatedSizeForSingleOutput\<close>: the type of the parsed address, or no
  type when the output has no address.
\<close>

definition getEstimatedSizeForSingleOutput :: "address_type option \<Rightarrow> int" where
  "getEstimatedSizeForSingleOutput address = getEstimatedSizeForAddressType address"

definition getEstimatedSize :: "BtcChain \<Rightarrow> TxProposal \<Rightarrow> fee_opts \<Rightarrow> int" where
  "getEstimatedSize chain txp opts =
    (let overhead = 4 + 4 + 1 + 1;
         inputSize = getEstimatedSizeForSingleInput chain txp (conservativeEstimation opts);
         nbInputs = length (txp_inputs txp);
         addresses = map out_toAddress (txp_outputs txp)
            @ (case txp_changeAddress txp of None \<Rightarrow> [] | Some a \<Rightarrow> [Some a]);
         outputsSize0 = sum_list (map getEstimatedSizeForSingleOutput addresses);
         outputsSize1 = (case fo_instantAcceptanceEscrow opts of
              Some e \<Rightarrow> if e \<noteq> 0 then outputsSize0 + getEstimatedSizeForAddressType (Some ScriptHash)
                        else outputsSize0
            | None \<Rightarrow> outputsSize0);
         outputsSize = (if outputsSize1 = 0 then getEstimatedSizeForSingleOutput None else outputsSize1);
         size = overhead + inputSize * of_nat nbInputs + of_int outputsSize
     in Math_ceil (size * 1 + getSizeSafetyMargin chain (conservativeEstimation opts)))"

text \<open>
  The first part of \<^verbatim>\<open>getEstimatedFee\<close>: when the proposal already has
  inputs and outputs and no change address, and both totals are non-zero, the
  fee variable is their difference; otherwise it stays \<^verbatim>\<open>undefined\<close>.
\<close>

definition readyFee :: "TxProposal \<Rightarrow> int option" where
  "readyFee txp =
    (if txp_inputs txp \<noteq> [] \<and> txp_changeAddress txp = None \<and> txp_outputs txp \<noteq> []
     then (let totalInputs = sum_list (map utxo_satoshis (txp_inputs txp));
               totalOutputs = sum_list (map out_amount (txp_outputs txp))
           in if totalInputs \<noteq> 0 \<and> totalOutputs \<noteq> 0 then Some (totalInputs - totalOutputs)
              else None)
     else None)"

text \<open>
  \<^verbatim>\<open>getEstimatedFee\<close>.  \<^verbatim>\<open>txp.feePerKb\<close> is a number by its type.  A fee
  variable that is \<^verbatim>\<open>undefined\<close> or zero is replaced by the estimate: size
  times rate over 1000, raised to the dust amount.  The result is printed with
  no decimals and parsed again.
\<close>

definition getEstimatedFee :: "BtcChain \<Rightarrow> TxProposal \<Rightarrow> fee_opts \<Rightarrow> int" where
  "getEstimatedFee chain txp opts =
    (let estimate = max (txp_feePerKb txp * of_int (getEstimatedSize chain txp opts) / 1000)
                        (of_int (DUST_AMOUNT chain))
     in case readyFee txp of
          Some fee \<Rightarrow> if fee \<noteq> 0 then toFixed0 (of_int fee) else toFixed0 estimate
        | None \<Rightarrow> toFixed0 estimate)"

text \<open>\<^verbatim>\<open>getTotalAmount\<close>: the sum of the output amounts.\<close>

definition getTotalAmount :: "TxProposal \<Rightarrow> int" where
  "getTotalAmount txp = foldl (\<lambda>total o'. total + out_amount o') 0 (txp_outputs txp)"

section \<open>Coin selection (chain/btc/index.ts, selectTxInputs)\<close>

text \<open>
  The errors of the selection, by their code (the message and the required fee
  that a \<^verbatim>\<open>ClientError\<close> carries are left out).  \<open>COULD_NOT_SELECT\<close> is
  the plain \<^verbatim>\<open>Error('Could not select tx inputs')\<close>.
\<close>

datatype select_error =
    INSUFFICIENT_FUNDS
  | INSUFFICIENT_FUNDS_FOR_FEE
  | TX_MAX_SIZE_EXCEEDED
  | LOCKED_FUNDS
  | COULD_NOT_SELECT

text \<open>
  The variables of \<^verbatim>\<open>selectTxInputs\<close> that the closure \<^verbatim>\<open>select\<close>
  captures.
\<close>

record select_ctx =
  sc_txpAmount :: int
  sc_escrowAmount :: int
  sc_baseTxpSize :: int
  sc_baseTxpFee :: rat
  sc_sizePerInput :: rat
  sc_feePerInput :: rat
  sc_replaceTxByFee :: bool
  sc_DUST_AMOUNT :: int

text \<open>
  A quotient compared with a positive constant, as JavaScript evaluates it:
  over a zero denominator (always \<open>+0\<close> here) the quotient is
  \<open>-Infinity\<close>, \<open>NaN\<close> or \<open>+Infinity\<close> by the sign of the numerator, and
  every comparison with \<open>NaN\<close> is false.
\<close>

definition js_div_lt :: "rat \<Rightarrow> rat \<Rightarrow> rat \<Rightarrow> bool" where
  "js_div_lt a b c = (if b = 0 then a < 0 else a / b < c)"

definition js_div_gt :: "rat \<Rightarrow> rat \<Rightarrow> rat \<Rightarrow> bool" where
  "js_div_gt a b c = (if b = 0 then 0 < a else c < a / b)"

record sel_state =
  st_total :: int
  st_netTotal :: rat
  st_selected :: "utxo list"
  st_fullTxpAmount :: int
  st_fee :: "int option"
  st_error :: "select_error option"

text \<open>
  The head of the callback of \<^verbatim>\<open>_.each(smallInputs, ...)\<close>: the input is
  pushed, the totals grow, and the fee and the full amount are computed for the
  inputs selected so far (with an escrow the full amount includes the fee).
\<close>

definition accumulate :: "select_ctx \<Rightarrow> sel_state \<Rightarrow> utxo \<Rightarrow> sel_state" where
  "accumulate ctx st input =
    (let netInputAmount = of_int (utxo_satoshis input) - sc_feePerInput ctx;
         selected = st_selected st @ [input];
         total = st_total st + utxo_satoshis input;
         netTotal = st_netTotal st + netInputAmount;
         fee = Math_round (sc_baseTxpFee ctx + of_nat (length selected) * sc_feePerInput ctx);
         fullTxpAmount = (if sc_escrowAmount ctx \<noteq> 0 then sc_txpAmount ctx + fee
                          else sc_txpAmount ctx)
     in st\<lparr>st_total := total, st_netTotal := netTotal, st_selected := selected,
            st_fullTxpAmount := fullTxpAmount, st_fee := Some fee\<rparr>)"

text \<open>
  The branch \<^verbatim>\<open>netTotal >= fullTxpAmount\<close>: a change that is positive and at
  most the dust threshold is added to the fee.
\<close>

definition removeDustChange :: "select_ctx \<Rightarrow> sel_state \<Rightarrow> int \<Rightarrow> sel_state" where
  "removeDustChange ctx st fee =
    (let changeAmount = Math_round (of_int (st_total st) - of_int (st_fullTxpAmount st) - of_int fee);
         dustThreshold = max MIN_OUTPUT_AMOUNT (sc_DUST_AMOUNT ctx)
     in if 0 < changeAmount \<and> changeAmount \<le> dustThreshold
        then st\<lparr>st_fee := Some (fee + changeAmount)\<rparr>
        else st)"

text \<open>
  One call of the callback.  The boolean is \<open>True\<close> when the callback returns
  \<^verbatim>\<open>false\<close>, which ends the loop: the size limit, the two heuristics that
  apply when big inputs exist, and the amount being reached, in this order.
  \<open>hasBig\<close> is \<^verbatim>\<open>!_.isEmpty(bigInputs)\<close>.
\<close>

definition selectStep :: "select_ctx \<Rightarrow> bool \<Rightarrow> sel_state \<Rightarrow> utxo \<Rightarrow> bool \<times> sel_state" where
  "selectStep ctx hasBig st input =
    (let netInputAmount = of_int (utxo_satoshis input) - sc_feePerInput ctx;
         st1 = accumulate ctx st input;
         txpSize = of_int (sc_baseTxpSize ctx)
                     + of_nat (length (st_selected st1)) * sc_sizePerInput ctx;
         fee = Math_round (sc_baseTxpFee ctx
                     + of_nat (length (st_selected st1)) * sc_feePerInput ctx);
         fullTxpAmount = st_fullTxpAmount st1
     in
     if txpSize / 1000 > MAX_TX_SIZE_IN_KB_BTC
       then (True, st1\<lparr>st_error := Some TX_MAX_SIZE_EXCEEDED\<rparr>)
     else if hasBig \<and> js_div_lt netInputAmount (of_int fullTxpAmount)
                          UTXO_SELECTION_MIN_TX_AMOUNT_VS_UTXO_FACTOR
       then (True, st1)
     else if hasBig \<and> js_div_gt (of_int fee) (of_int fullTxpAmount)
                          UTXO_SELECTION_MAX_FEE_VS_TX_AMOUNT_FACTOR
                   \<and> js_div_gt (of_int fee) (sc_baseTxpFee ctx + sc_feePerInput ctx)
                          UTXO_SELECTION_MAX_FEE_VS_SINGLE_UTXO_FEE_FACTOR
       then (True, st1)
     else if of_int fullTxpAmount \<le> st_netTotal st1
       then (True, removeDustChange ctx st1 fee)
     else (False, st1))"

fun eachSmallInput :: "select_ctx \<Rightarrow> bool \<Rightarrow> sel_state \<Rightarrow> utxo list \<Rightarrow> sel_state" where
  "eachSmallInput ctx hasBig st [] = st"
| "eachSmallInput ctx hasBig st (input # rest) =
    (case selectStep ctx hasBig st input of
       (True, st') \<Rightarrow> st'
     | (False, st') \<Rightarrow> eachSmallInput ctx hasBig st' rest)"

text \<open>
  The locals of the closure \<^verbatim>\<open>select(utxos, requiredInputs, cb)\<close> that
  come before its loop.  The required transaction ids are those of the
  proposal's inputs, for a replacement only.  An output worth no more than the
  fee of one input is dropped unless its transaction id is required.
  \<^verbatim>\<open>_.sortBy\<close> is a stable sort by the listed keys in turn, \<^verbatim>\<open>false\<close>
  before \<^verbatim>\<open>true\<close>.
\<close>

definition requiredTxids :: "select_ctx \<Rightarrow> utxo list \<Rightarrow> string list" where
  "requiredTxids ctx requiredInputs =
    (if requiredInputs \<noteq> [] \<and> sc_replaceTxByFee ctx then map utxo_txid requiredInputs else [])"

definition worthUtxos :: "select_ctx \<Rightarrow> string list \<Rightarrow> utxo list \<Rightarrow> utxo list" where
  "worthUtxos ctx required utxos =
    filter (\<lambda>u. if utxo_txid u \<in> set required then True
                 else if of_int (utxo_satoshis u) \<le> sc_feePerInput ctx then False
                 else True) utxos"

definition bigInputThreshold :: "select_ctx \<Rightarrow> rat" where
  "bigInputThreshold ctx =
    of_int (sc_txpAmount ctx * UTXO_SELECTION_MAX_SINGLE_UTXO_FACTOR)
      + (sc_baseTxpFee ctx + sc_feePerInput ctx)"

definition bigInputs :: "select_ctx \<Rightarrow> string list \<Rightarrow> utxo list \<Rightarrow> utxo list" where
  "bigInputs ctx required utxos =
    sort_key (\<lambda>u. (utxo_txid u \<notin> set required, utxo_satoshis u))
      (fst (partition (\<lambda>u. bigInputThreshold ctx < of_int (utxo_satoshis u)) utxos))"

definition smallInputs :: "select_ctx \<Rightarrow> string list \<Rightarrow> utxo list \<Rightarrow> utxo list" where
  "smallInputs ctx required utxos =
    sort_key (\<lambda>u. (utxo_txid u \<notin> set required, - utxo_satoshis u))
      (snd (partition (\<lambda>u. bigInputThreshold ctx < of_int (utxo_satoshis u)) utxos))"

text \<open>
  The fallback after the loop: when the net total is short of the amount, the
  accumulated inputs are dropped and the first big input, if any, is taken alone.
\<close>

definition bigInputFallback :: "select_ctx \<Rightarrow> utxo list \<Rightarrow> sel_state \<Rightarrow> sel_state" where
  "bigInputFallback ctx bigs st =
    (if st_netTotal st < of_int (st_fullTxpAmount st)
     then (case bigs of
             [] \<Rightarrow> st\<lparr>st_selected := []\<rparr>
           | input # _ \<Rightarrow>
               (let total = utxo_satoshis input;
                    fee = Math_round (sc_baseTxpFee ctx + sc_feePerInput ctx)
                in st\<lparr>st_total := total, st_fee := Some fee,
                      st_netTotal := of_int total - of_int fee,
                      st_selected := [input]\<rparr>))
     else st)"

text \<open>
  \<^verbatim>\<open>select\<close>.  The error passed to \<^verbatim>\<open>cb\<close> is \<open>Inl\<close>; a selection
  comes with the fee variable, which is \<^verbatim>\<open>undefined\<close> until a loop step or
  the fallback sets it.
\<close>

definition select ::
  "select_ctx \<Rightarrow> utxo list \<Rightarrow> utxo list \<Rightarrow> select_error + (utxo list \<times> int option)" where
  "select ctx utxos0 requiredInputs =
    (let required = requiredTxids ctx requiredInputs;
         totalValueInUtxos0 = sum_list (map utxo_satoshis utxos0)
     in
     if totalValueInUtxos0 < sc_txpAmount ctx then Inl INSUFFICIENT_FUNDS
     else
       let utxos = worthUtxos ctx required utxos0;
           totalValueInUtxos = sum_list (map utxo_satoshis utxos);
           netValueInUtxos = of_int totalValueInUtxos
              - (sc_baseTxpFee ctx - of_nat (length utxos) * sc_feePerInput ctx)
       in
       if netValueInUtxos < of_int (sc_txpAmount ctx) then Inl INSUFFICIENT_FUNDS_FOR_FEE
       else
         let bigs = bigInputs ctx required utxos;
             smalls = smallInputs ctx required utxos;
             st0 = \<lparr>st_total = 0, st_netTotal = - sc_baseTxpFee ctx, st_selected = [],
                    st_fullTxpAmount = sc_txpAmount ctx, st_fee = None, st_error = None\<rparr>;
             st1 = eachSmallInput ctx (bigs \<noteq> []) st0 smalls;
             st2 = bigInputFallback ctx bigs st1
         in
         if st_selected st2 = []
         then Inl (case st_error st2 of Some e \<Rightarrow> e | None \<Rightarrow> INSUFFICIENT_FUNDS_FOR_FEE)
         else Inr (st_selected st2, st_fee st2))"

subsection \<open>The candidates: balance, filters and the confirmation ladder\<close>

record select_opts =
  so_payProUrl :: "string option"
  so_instantAcceptanceEscrow :: "int option"
  so_utxosToExclude :: "string list"
  so_inputs :: "utxo list"

record balance =
  totalAmount :: int
  lockedAmount :: int
  totalConfirmedAmount :: int
  lockedConfirmedAmount :: int
  availableAmount :: int
  availableConfirmedAmount :: int

definition totalizeUtxos :: "utxo list \<Rightarrow> balance" where
  "totalizeUtxos utxos =
    (let total = sum_list (map utxo_satoshis utxos);
         locked = sum_list (map utxo_satoshis (filter utxo_locked utxos));
         totalConfirmed = sum_list (map utxo_satoshis (filter (\<lambda>u. utxo_confirmations u \<noteq> 0) utxos));
         lockedConfirmed = sum_list (map utxo_satoshis
            (filter (\<lambda>u. utxo_confirmations u \<noteq> 0) (filter utxo_locked utxos)))
     in \<lparr>totalAmount = total, lockedAmount = locked, totalConfirmedAmount = totalConfirmed,
         lockedConfirmedAmount = lockedConfirmed, availableAmount = total - locked,
         availableConfirmedAmount = totalConfirmed - lockedConfirmed\<rparr>)"

text \<open>A number printed in decimal, as string concatenation prints \<^verbatim>\<open>utxo.vout\<close>.\<close>

definition digitChar :: "nat \<Rightarrow> char" where
  "digitChar d = char_of (48 + d)"

fun numberToString :: "nat \<Rightarrow> string" where
  "numberToString n =
    (if n < 10 then [digitChar n]
     else numberToString (n div 10) @ [digitChar (n mod 10)])"

text \<open>
  \<^verbatim>\<open>sanitizeUtxos\<close>: a locked output is dropped; an unconfirmed one is dropped
  when the proposal excludes unconfirmed outputs and is not a replacement; an
  output listed in \<^verbatim>\<open>opts.utxosToExclude\<close> (as \<^verbatim>\<open>txid:vout\<close>) is dropped.
\<close>

definition sanitizeUtxos :: "TxProposal \<Rightarrow> select_opts \<Rightarrow> utxo list \<Rightarrow> utxo list" where
  "sanitizeUtxos txp opts utxos =
    filter (\<lambda>u.
      if utxo_locked u then False
      else if txp_excludeUnconfirmedUtxos txp \<and> \<not> txp_replaceTxByFee txp \<and> utxo_confirmations u = 0
        then False
      else if utxo_txid u @ '':'' @ numberToString (utxo_vout u) \<in> set (filter (\<lambda>v. v \<noteq> []) (so_utxosToExclude opts))
        then False
      else True) utxos"

text \<open>\<^verbatim>\<open>_.uniqBy(xs, 'address')\<close>: the first output of every address.\<close>

fun uniqBy_address :: "string list \<Rightarrow> utxo list \<Rightarrow> utxo list" where
  "uniqBy_address seen [] = []"
| "uniqBy_address seen (u # us) =
    (if utxo_address u \<in> set seen then uniqBy_address seen us
     else u # uniqBy_address (utxo_address u # seen) us)"

text \<open>\<^verbatim>\<open>xs.indexOf(x)\<close>: the first position, or \<open>-1\<close>.\<close>

fun indexOf :: "string list \<Rightarrow> string \<Rightarrow> int" where
  "indexOf [] x = - 1"
| "indexOf (y # ys) x = (if y = x then 0 else (let i = indexOf ys x in if i < 0 then - 1 else i + 1))"

text \<open>
  The candidates of one rung of the ladder: outputs with at least \<open>grp\<close>
  confirmations; with an escrow on a compatible wallet, the largest output of
  every address; for a replacement, ordered by decreasing position of their
  transaction id among \<^verbatim>\<open>opts.inputs\<close> (\<^verbatim>\<open>Array.prototype.sort\<close> is stable).
\<close>

definition candidateUtxos :: "TxProposal \<Rightarrow> bool \<Rightarrow> select_opts \<Rightarrow> utxo list \<Rightarrow> int \<Rightarrow> utxo list" where
  "candidateUtxos txp isZceCompatible opts utxos grp =
    (let c0 = filter (\<lambda>u. grp \<le> utxo_confirmations u) utxos;
         c1 = (if (case so_instantAcceptanceEscrow opts of None \<Rightarrow> False | Some e \<Rightarrow> e \<noteq> 0)
                  \<and> isZceCompatible
               then uniqBy_address [] (sort_key (\<lambda>u. - utxo_amount u) c0)
               else c0)
     in if txp_replaceTxByFee txp
        then (let txIdArray = map utxo_txid (so_inputs opts)
              in sort_key (\<lambda>u. - indexOf txIdArray (utxo_txid u)) c1)
        else c1)"

record ladder_state =
  ls_inputs :: "utxo list"
  ls_fee :: "int option"
  ls_selectionError :: "select_error option"
  ls_lastGroupLength :: "nat option"

text \<open>
  The \<^verbatim>\<open>async.whilst\<close> loop over the groups: it goes on while groups are left
  and no inputs are selected; a rung with as many candidates as the last one
  explored is skipped.
\<close>

fun ladder ::
  "select_ctx \<Rightarrow> TxProposal \<Rightarrow> bool \<Rightarrow> select_opts \<Rightarrow> utxo list \<Rightarrow> ladder_state \<Rightarrow> int list
    \<Rightarrow> ladder_state" where
  "ladder ctx txp zce opts utxos ls [] = ls"
| "ladder ctx txp zce opts utxos ls (grp # groups) =
    (if ls_inputs ls \<noteq> [] then ls
     else
       let cands = candidateUtxos txp zce opts utxos grp in
       if ls_lastGroupLength ls = Some (length cands) then ladder ctx txp zce opts utxos ls groups
       else
         let ls1 = ls\<lparr>ls_lastGroupLength := Some (length cands)\<rparr> in
         case select ctx cands (txp_inputs txp) of
           Inl err \<Rightarrow> ladder ctx txp zce opts utxos (ls1\<lparr>ls_selectionError := Some err\<rparr>) groups
         | Inr (selectedInputs, selectedFee) \<Rightarrow>
             ladder ctx txp zce opts utxos
               (ls1\<lparr>ls_selectionError := None, ls_inputs := selectedInputs, ls_fee := selectedFee\<rparr>)
               groups)"

datatype selection_result =
    SelectionFailed select_error
  | PresetInputs int
  | Selected "utxo list" "int option"

text \<open>
  The values \<^verbatim>\<open>select\<close> captures, as \<^verbatim>\<open>selectTxInputs\<close> computes them from
  the proposal and the options with its own size and fee estimator.
\<close>

definition selectContext :: "BtcChain \<Rightarrow> TxProposal \<Rightarrow> select_opts \<Rightarrow> select_ctx" where
  "selectContext chain txp opts =
    (let feeOpts = \<lparr>conservativeEstimation = truthy (so_payProUrl opts),
                    fo_instantAcceptanceEscrow = so_instantAcceptanceEscrow opts\<rparr>;
         escrowAmount = (case so_instantAcceptanceEscrow opts of None \<Rightarrow> 0 | Some e \<Rightarrow> e);
         txpAmount = getTotalAmount txp + escrowAmount;
         baseTxpSize = getEstimatedSize chain txp feeOpts;
         baseTxpFee = (of_int baseTxpSize * txp_feePerKb txp) / 1000;
         sizePerInput = getEstimatedSizeForSingleInput chain txp (conservativeEstimation feeOpts);
         feePerInput = (sizePerInput * txp_feePerKb txp) / 1000
     in \<lparr>sc_txpAmount = txpAmount, sc_escrowAmount = escrowAmount, sc_baseTxpSize = baseTxpSize,
         sc_baseTxpFee = baseTxpFee, sc_sizePerInput = sizePerInput, sc_feePerInput = feePerInput,
         sc_replaceTxByFee = txp_replaceTxByFee txp, sc_DUST_AMOUNT = DUST_AMOUNT chain\<rparr>)"

text \<open>
  The groups of the ladder, by confirmations: 6, then 1, then 0 unless the
  proposal excludes unconfirmed outputs.
\<close>

definition confirmationGroups :: "TxProposal \<Rightarrow> int list" where
  "confirmationGroups txp = [6, 1] @ (if \<not> txp_excludeUnconfirmedUtxos txp then [0] else [])"

text \<open>
  The end of the loop: the last selection error, or a generic error when no
  inputs were selected, or the selection.
\<close>

definition ladderResult :: "ladder_state \<Rightarrow> selection_result" where
  "ladderResult ls =
    (if ls_selectionError ls \<noteq> None \<or> ls_inputs ls = []
     then SelectionFailed (case ls_selectionError ls of Some e \<Rightarrow> e | None \<Rightarrow> COULD_NOT_SELECT)
     else Selected (ls_inputs ls) (ls_fee ls))"

text \<open>
  \<^verbatim>\<open>selectTxInputs\<close>, given the outputs \<^verbatim>\<open>getUtxosForCurrentWallet\<close>
  delivers.  With inputs already set on a proposal that is no replacement, only
  the fee is fixed (\<open>PresetInputs\<close>).  Otherwise the result is the error handed
  to the callback, or the inputs and fee chosen by the ladder: the code stores a
  random permutation of these inputs and the fee in the proposal and passes them
  to \<^verbatim>\<open>checkTx\<close>, which is the library's validation.
\<close>

definition selectTxInputs ::
  "BtcChain \<Rightarrow> TxProposal \<Rightarrow> bool \<Rightarrow> select_opts \<Rightarrow> utxo list \<Rightarrow> selection_result" where
  "selectTxInputs chain txp isZceCompatible opts utxos0 =
    (if txp_inputs txp \<noteq> [] \<and> \<not> txp_replaceTxByFee txp
     then PresetInputs (case txp_fee txp of
              Some f \<Rightarrow> f
            | None \<Rightarrow> getEstimatedFee chain txp
                        \<lparr>conservativeEstimation = True, fo_instantAcceptanceEscrow = None\<rparr>)
     else
       let ctx = selectContext chain txp opts;
           bal = totalizeUtxos utxos0;
           total = (if txp_excludeUnconfirmedUtxos txp \<and> \<not> txp_replaceTxByFee txp
                    then totalConfirmedAmount bal else totalAmount bal);
           available = (if txp_excludeUnconfirmedUtxos txp \<and> \<not> txp_replaceTxByFee txp
                    then availableConfirmedAmount bal else availableAmount bal)
       in
       if total < getTotalAmount txp then SelectionFailed INSUFFICIENT_FUNDS
       else if available < getTotalAmount txp then SelectionFailed LOCKED_FUNDS
       else ladderResult
              (ladder ctx txp isZceCompatible opts (sanitizeUtxos txp opts utxos0)
                 \<lparr>ls_inputs = [], ls_fee = None, ls_selectionError = None,
                  ls_lastGroupLength = None\<rparr>
                 (confirmationGroups txp)))"

section \<open>The verifier (verifier.ts) and its helpers in common/utils.ts\<close>

datatype verifier_error = ArgumentError | StateError | LibraryError

text \<open>
  The cryptography behind \<^verbatim>\<open>Utils.verifyMessage\<close> and the wallet key:
  \<^item> \<open>cl_toPublicKey\<close>: \<^verbatim>\<open>PrivateKey.fromString(k).toPublicKey().toString()\<close>;
  \<^item> \<open>cl_PublicKey\<close>: \<^verbatim>\<open>new PublicKey(pubKey)\<close>;
  \<^item> \<open>cl_hashMessage\<close>: the reversed double SHA-256 of \<^verbatim>\<open>hashMessage\<close>;
  \<^item> \<open>cl_verify\<close>: \<^verbatim>\<open>Signature.fromString\<close> followed by \<^verbatim>\<open>ECDSA.verify\<close>,
    \<open>None\<close> when either throws.
\<close>

record ('pk, 'h) cryptoLib =
  cl_toPublicKey :: "string \<Rightarrow> string option"
  cl_PublicKey :: "string \<Rightarrow> 'pk option"
  cl_hashMessage :: "string \<Rightarrow> 'h"
  cl_verify :: "'h \<Rightarrow> string \<Rightarrow> 'pk \<Rightarrow> bool option"

text \<open>\<^verbatim>\<open>Utils.verifyMessage\<close> on a message that is one string.\<close>

definition verifyMessage ::
  "('pk, 'h) cryptoLib \<Rightarrow> string \<Rightarrow> string option \<Rightarrow> string \<Rightarrow> verifier_error + bool" where
  "verifyMessage lib message signature pubKey =
    (if message = [] then Inl ArgumentError
     else if pubKey = [] then Inl ArgumentError
     else case (if truthy signature then signature else None) of
       None \<Rightarrow> Inr False
     | Some sg \<Rightarrow>
        (case cl_PublicKey lib pubKey of
           None \<Rightarrow> Inl LibraryError
         | Some pub \<Rightarrow>
            (case cl_verify lib (cl_hashMessage lib message) sg pub of
               None \<Rightarrow> Inr False
             | Some b \<Rightarrow> Inr b)))"

definition getCopayerHash :: "string \<Rightarrow> string \<Rightarrow> string \<Rightarrow> string" where
  "getCopayerHash name xPubKey requestPubKey = name @ ''|'' @ xPubKey @ ''|'' @ requestPubKey"

record copayer =
  cp_name :: "string option"
  cp_encryptedName :: "string option"
  cp_xPubKey :: "string option"
  cp_requestPubKey :: "string option"
  cp_signature :: "string option"

record key_ring_entry =
  kr_xPubKey :: string
  kr_requestPubKey :: string

record credentials =
  cr_isComplete :: bool
  cr_walletPrivKey :: "string option"
  cr_xPubKey :: "string option"
  cr_m :: int
  cr_n :: int
  cr_network :: string
  cr_chain :: "string option"
  cr_addressType :: script_type
  cr_publicKeyRing :: "key_ring_entry list"
  cr_hardwareSourcePublicKey :: "string option"
  cr_clientDerivedPublicKey :: "string option"

text \<open>
  The table \<^verbatim>\<open>uniq\<close> of \<^verbatim>\<open>checkCopayers\<close> holds JavaScript numbers.
  \<^verbatim>\<open>uniq[k]++\<close> reads the entry as a number (\<^verbatim>\<open>undefined\<close> reads as
  \<open>NaN\<close>), stores that number plus one (\<open>NaN\<close> stays \<open>NaN\<close>) and evaluates
  to the number read; \<open>NaN\<close> and \<open>0\<close> are falsy.
\<close>

datatype js_number = NaN | Num int

definition postIncrement :: "(string \<rightharpoonup> js_number) \<Rightarrow> string \<Rightarrow> js_number \<times> (string \<rightharpoonup> js_number)" where
  "postIncrement tbl k =
    (let old = (case tbl k of None \<Rightarrow> NaN | Some v \<Rightarrow> v);
         new = (case old of NaN \<Rightarrow> NaN | Num i \<Rightarrow> Num (i + 1))
     in (old, tbl(k \<mapsto> new)))"

definition js_number_truthy :: "js_number \<Rightarrow> bool" where
  "js_number_truthy v = (case v of NaN \<Rightarrow> False | Num i \<Rightarrow> i \<noteq> 0)"

datatype loop_outcome = ReturnedUndefined | Finished bool

text \<open>
  The loop of \<^verbatim>\<open>checkCopayers\<close>.  The table is indexed with
  \<^verbatim>\<open>copayers.xPubKey\<close>, a property of the array, which is \<^verbatim>\<open>undefined\<close>:
  the key is the text \<open>undefined\<close> for every copayer.  Once \<open>error\<close> is
  set, the next round returns \<^verbatim>\<open>undefined\<close>.
\<close>

fun checkCopayersLoop ::
  "('pk, 'h) cryptoLib \<Rightarrow> string \<Rightarrow> (string \<rightharpoonup> js_number) \<Rightarrow> bool \<Rightarrow> copayer list
    \<Rightarrow> verifier_error + loop_outcome" where
  "checkCopayersLoop lib walletPubKey uniq error [] = Inr (Finished error)"
| "checkCopayersLoop lib walletPubKey uniq error (copayer # rest) =
    (if error then Inr ReturnedUndefined
     else
       case postIncrement uniq ''undefined'' of (seen, uniq') \<Rightarrow>
       let error1 = (if js_number_truthy seen then True else error) in
       if \<not> truthy (js_or (cp_encryptedName copayer) (cp_name copayer))
          \<or> \<not> truthy (cp_xPubKey copayer)
          \<or> \<not> truthy (cp_requestPubKey copayer)
          \<or> \<not> truthy (cp_signature copayer)
       then checkCopayersLoop lib walletPubKey uniq' True rest
       else
         (case (js_or (cp_encryptedName copayer) (cp_name copayer),
                cp_xPubKey copayer, cp_requestPubKey copayer) of
            (Some name, Some xPubKey, Some requestPubKey) \<Rightarrow>
              (case verifyMessage lib (getCopayerHash name xPubKey requestPubKey)
                      (cp_signature copayer) walletPubKey of
                 Inl e \<Rightarrow> Inl e
               | Inr ok \<Rightarrow>
                   checkCopayersLoop lib walletPubKey uniq' (if \<not> ok then True else error1) rest)
          | _ \<Rightarrow> checkCopayersLoop lib walletPubKey uniq' True rest))"

text \<open>
  \<^verbatim>\<open>Verifier.checkCopayers\<close>: \<open>Inr (Some b)\<close> is the returned boolean and
  \<open>Inr None\<close> a return of \<^verbatim>\<open>undefined\<close>.
\<close>

definition checkCopayers ::
  "('pk, 'h) cryptoLib \<Rightarrow> credentials \<Rightarrow> copayer list \<Rightarrow> verifier_error + bool option" where
  "checkCopayers lib creds copayers =
    (case (if truthy (cr_walletPrivKey creds) then cr_walletPrivKey creds else None) of
       None \<Rightarrow> Inl StateError
     | Some walletPrivKey \<Rightarrow>
        (case cl_toPublicKey lib walletPrivKey of
           None \<Rightarrow> Inl LibraryError
         | Some walletPubKey \<Rightarrow>
            if int (length copayers) \<noteq> cr_n creds then Inr (Some False)
            else (case checkCopayersLoop lib walletPubKey Map.empty False copayers of
                Inl e \<Rightarrow> Inl e
              | Inr outcome \<Rightarrow>
                 (case outcome of
                    ReturnedUndefined \<Rightarrow> Inr None
                  | Finished error \<Rightarrow>
                      if error then Inr (Some False)
                      else if cr_xPubKey creds \<notin> set (map cp_xPubKey copayers)
                        then Inr (Some False)
                      else Inr (Some True)))))"

subsection \<open>Address derivation\<close>

datatype bitcore_flavor = Bitcore | BitcoreLibCash | BitcoreLibDoge | BitcoreLibLtc

text \<open>The table \<^verbatim>\<open>Bitcore_\<close>: the library of every chain.\<close>

definition Bitcore_by_chain :: "string \<Rightarrow> bitcore_flavor option" where
  "Bitcore_by_chain chain =
    (if chain = ''btc'' then Some Bitcore
     else if chain = ''bch'' then Some BitcoreLibCash
     else if chain \<in> set [''eth'', ''matic'', ''arb'', ''base'', ''op'', ''xrp''] then Some Bitcore
     else if chain = ''doge'' then Some BitcoreLibDoge
     else if chain = ''ltc'' then Some BitcoreLibLtc
     else if chain = ''sol'' then Some Bitcore
     else None)"

text \<open>
  The library calls of \<^verbatim>\<open>Utils.deriveAddress\<close> and the constant
  \<^verbatim>\<open>Constants.UTXO_CHAINS\<close>; \<open>None\<close> is a thrown exception.  The text
  argument of \<open>wl_createMultisig\<close> and \<open>wl_fromPublicKey\<close> is the address
  type, when the call names one.
\<close>

record ('hd, 'pk, 'addr) walletLib =
  wl_UTXO_CHAINS :: "string list"
  wl_Deriver_getAddress :: "string \<Rightarrow> string \<Rightarrow> string \<Rightarrow> script_type \<Rightarrow> 'addr option"
  wl_Deriver_deriveAddress :: "string \<Rightarrow> string \<Rightarrow> string \<Rightarrow> string \<Rightarrow> bool \<Rightarrow> 'addr option"
  wl_HDPublicKey :: "bitcore_flavor \<Rightarrow> string \<Rightarrow> 'hd option"
  wl_deriveChild :: "bitcore_flavor \<Rightarrow> 'hd \<Rightarrow> string option \<Rightarrow> 'pk option"
  wl_createMultisig :: "bitcore_flavor \<Rightarrow> 'pk list \<Rightarrow> int \<Rightarrow> string \<Rightarrow> string option \<Rightarrow> 'addr option"
  wl_createEscrow :: "bitcore_flavor \<Rightarrow> 'pk list \<Rightarrow> 'pk option \<Rightarrow> string \<Rightarrow> 'addr option"
  wl_fromPublicKey :: "bitcore_flavor \<Rightarrow> 'pk option \<Rightarrow> string \<Rightarrow> string option \<Rightarrow> 'addr option"
  wl_address_toString :: "'addr \<Rightarrow> bool \<Rightarrow> string"
  wl_publicKey_toString :: "'pk \<Rightarrow> string"

record wallet_address =
  wa_address :: string
  wa_path :: string
  wa_publicKeys :: "string list"
  wa_type :: "script_type option"

text \<open>\<^verbatim>\<open>toUpperCase\<close> on the ASCII letters of a chain name.\<close>

definition toUpperCase :: "string \<Rightarrow> string" where
  "toUpperCase s =
    map (\<lambda>c. let k = (of_char c :: nat) in if 97 \<le> k \<and> k \<le> 122 then char_of (k - 32) else c) s"

definition isDigit :: "char \<Rightarrow> bool" where
  "isDigit c = (let k = (of_char c :: nat) in 48 \<le> k \<and> k \<le> 57)"

text \<open>
  The regular expression \<^verbatim>\<open>/m\/([0-9]*)\/([0-9]*)/\<close> of
  \<^verbatim>\<open>parseDerivationPath\<close>: at the leftmost position where it fits, \<open>m/\<close>,
  a longest run of digits, \<open>/\<close>, a longest run of digits.
\<close>

definition matchPathAt :: "string \<Rightarrow> (string \<times> string) option" where
  "matchPathAt s =
    (if take 2 s = ''m/''
     then (let r = drop 2 s; changeIndex = takeWhile isDigit r; r' = dropWhile isDigit r
           in if take 1 r' = ''/'' then Some (changeIndex, takeWhile isDigit (drop 1 r')) else None)
     else None)"

fun matchPath :: "string \<Rightarrow> (string \<times> string) option" where
  "matchPath [] = matchPathAt []"
| "matchPath (c # cs) =
    (case matchPathAt (c # cs) of Some r \<Rightarrow> Some r | None \<Rightarrow> matchPath cs)"

text \<open>
  \<^verbatim>\<open>parseDerivationPath\<close>: the address index as text and whether the change
  index, read as a number, is positive; a path the expression does not fit
  throws.
\<close>

definition parseDerivationPath :: "string \<Rightarrow> (string \<times> bool) option" where
  "parseDerivationPath path =
    (case matchPath path of
       None \<Rightarrow> None
     | Some (changeIndex, addressIndex) \<Rightarrow>
         Some (addressIndex, \<exists>c \<in> set changeIndex. c \<noteq> CHR ''0''))"

fun mapThrowing :: "('a \<Rightarrow> 'b option) \<Rightarrow> 'a list \<Rightarrow> 'b list option" where
  "mapThrowing f [] = Some []"
| "mapThrowing f (x # xs) =
    (case f x of
       None \<Rightarrow> None
     | Some y \<Rightarrow> (case mapThrowing f xs of None \<Rightarrow> None | Some ys \<Rightarrow> Some (y # ys)))"

definition derivePublicKey ::
  "('hd, 'pk, 'addr) walletLib \<Rightarrow> bitcore_flavor \<Rightarrow> string \<Rightarrow> string option \<Rightarrow> 'pk option" where
  "derivePublicKey lib bitcore xPubKey path =
    (case wl_HDPublicKey lib bitcore xPubKey of
       None \<Rightarrow> None
     | Some xpub \<Rightarrow> wl_deriveChild lib bitcore xpub path)"

text \<open>
  The object \<^verbatim>\<open>deriveAddress\<close> returns after the \<^verbatim>\<open>switch\<close>: the address
  printed with \<^verbatim>\<open>toString(true)\<close>, the path and the printed keys; a library
  call that threw gives no address.
\<close>

definition derivedResult ::
  "('hd, 'pk, 'addr) walletLib \<Rightarrow> string \<Rightarrow> 'addr option \<Rightarrow> 'pk list
    \<Rightarrow> verifier_error + wallet_address" where
  "derivedResult lib path bitcoreAddress publicKeys =
    (case bitcoreAddress of
       None \<Rightarrow> Inl LibraryError
     | Some a \<Rightarrow> Inr \<lparr>wa_address = wl_address_toString lib a True, wa_path = path,
                      wa_publicKeys = map (wl_publicKey_toString lib) publicKeys, wa_type = None\<rparr>)"

text \<open>The branch of \<^verbatim>\<open>deriveAddress\<close> for a key from hardware or from the client.\<close>

definition deriveFromSourceKey ::
  "('hd, 'pk, 'addr) walletLib \<Rightarrow> script_type \<Rightarrow> string \<Rightarrow> string \<Rightarrow> string option \<Rightarrow> string
    \<Rightarrow> verifier_error + wallet_address" where
  "deriveFromSourceKey lib scriptType path network chain0 externSourcePublicKey =
    (case chain0 of
       None \<Rightarrow> Inl LibraryError
     | Some ch \<Rightarrow>
        (case wl_Deriver_getAddress lib (toUpperCase ch) network externSourcePublicKey scriptType of
           None \<Rightarrow> Inl LibraryError
         | Some bitcoreAddress \<Rightarrow>
             Inr \<lparr>wa_address = wl_address_toString lib bitcoreAddress False, wa_path = path,
                  wa_publicKeys = [externSourcePublicKey], wa_type = None\<rparr>))"

text \<open>The escrow address of the \<open>P2SH\<close> case, from the first key of the ring.\<close>

definition deriveEscrow ::
  "('hd, 'pk, 'addr) walletLib \<Rightarrow> bitcore_flavor \<Rightarrow> key_ring_entry list \<Rightarrow> 'pk list \<Rightarrow> string
    \<Rightarrow> string \<Rightarrow> utxo list \<Rightarrow> verifier_error + wallet_address" where
  "deriveEscrow lib bitcore publicKeyRing publicKeys path network inputs =
    (case publicKeyRing of
       [] \<Rightarrow> Inl LibraryError
     | first # _ \<Rightarrow>
        (case wl_HDPublicKey lib bitcore (kr_xPubKey first) of
           None \<Rightarrow> Inl LibraryError
         | Some xpub \<Rightarrow>
            (case mapThrowing (\<lambda>input. wl_deriveChild lib bitcore xpub (utxo_path input)) inputs of
               None \<Rightarrow> Inl LibraryError
             | Some inputPublicKeys \<Rightarrow>
                 derivedResult lib path
                   (wl_createEscrow lib bitcore inputPublicKeys (js_index publicKeys 0) network)
                   (take 1 publicKeys @ inputPublicKeys))))"

text \<open>The \<^verbatim>\<open>switch\<close> on the script type, given the keys derived from the ring.\<close>

definition deriveByScriptType ::
  "('hd, 'pk, 'addr) walletLib \<Rightarrow> bitcore_flavor \<Rightarrow> script_type \<Rightarrow> key_ring_entry list
    \<Rightarrow> 'pk list \<Rightarrow> string \<Rightarrow> int \<Rightarrow> string \<Rightarrow> string \<Rightarrow> utxo list option
    \<Rightarrow> verifier_error + wallet_address" where
  "deriveByScriptType lib bitcore scriptType publicKeyRing publicKeys path m network chain
      escrowInputs =
    (case scriptType of
       P2WSH \<Rightarrow>
         derivedResult lib path
           (wl_createMultisig lib bitcore publicKeys m network (Some ''witnessscripthash''))
           publicKeys
     | P2SH \<Rightarrow>
         (case escrowInputs of
            Some inputs \<Rightarrow> deriveEscrow lib bitcore publicKeyRing publicKeys path network inputs
          | None \<Rightarrow>
              derivedResult lib path (wl_createMultisig lib bitcore publicKeys m network None)
                publicKeys)
     | P2WPKH \<Rightarrow>
         derivedResult lib path
           (wl_fromPublicKey lib bitcore (js_index publicKeys 0) network (Some ''witnesspubkeyhash''))
           publicKeys
     | P2PKH \<Rightarrow>
         if length publicKeys \<noteq> 1 then Inl StateError
         else if chain \<in> set (wl_UTXO_CHAINS lib)
         then derivedResult lib path
                (wl_fromPublicKey lib bitcore (js_index publicKeys 0) network None) publicKeys
         else (case parseDerivationPath path of
                 None \<Rightarrow> Inl LibraryError
               | Some (addressIndex, isChange) \<Rightarrow>
                   (case publicKeyRing of
                      [] \<Rightarrow> Inl LibraryError
                    | first # _ \<Rightarrow>
                        derivedResult lib path
                          (wl_Deriver_deriveAddress lib (toUpperCase chain) network
                             (kr_xPubKey first) addressIndex isChange)
                          publicKeys))
     | P2TR \<Rightarrow>
         derivedResult lib path
           (wl_fromPublicKey lib bitcore (js_index publicKeys 0) network (Some ''taproot''))
           publicKeys
     | UnknownScript \<Rightarrow> Inl ArgumentError)"

text \<open>
  \<^verbatim>\<open>Utils.deriveAddress\<close>.  With a public key from hardware or derived by the
  client, the address comes from that key alone.  Otherwise the chain defaults
  to \<open>btc\<close>, every key of the ring is derived at the path, and the address is
  built by script type.
\<close>

definition deriveAddress ::
  "('hd, 'pk, 'addr) walletLib \<Rightarrow> script_type \<Rightarrow> key_ring_entry list \<Rightarrow> string \<Rightarrow> int \<Rightarrow> string
    \<Rightarrow> string option \<Rightarrow> utxo list option \<Rightarrow> string option \<Rightarrow> string option
    \<Rightarrow> verifier_error + wallet_address" where
  "deriveAddress lib scriptType publicKeyRing path m network chain0 escrowInputs
      hardwareSourcePublicKey clientDerivedPublicKey =
    (if scriptType = UnknownScript then Inl ArgumentError
     else case (if truthy (js_or hardwareSourcePublicKey clientDerivedPublicKey)
                then js_or hardwareSourcePublicKey clientDerivedPublicKey else None) of
       Some externSourcePublicKey \<Rightarrow>
         deriveFromSourceKey lib scriptType path network chain0 externSourcePublicKey
     | None \<Rightarrow>
        (let chain = (case js_or chain0 (Some ''btc'') of None \<Rightarrow> [] | Some c \<Rightarrow> c) in
         case Bitcore_by_chain chain of
           None \<Rightarrow> Inl LibraryError
         | Some bitcore \<Rightarrow>
            (case mapThrowing (\<lambda>item. derivePublicKey lib bitcore (kr_xPubKey item) (Some path))
                    publicKeyRing of
               None \<Rightarrow> Inl LibraryError
             | Some publicKeys \<Rightarrow>
                 deriveByScriptType lib bitcore scriptType publicKeyRing publicKeys path m network
                   chain escrowInputs)))"

text \<open>
  \<^verbatim>\<open>Verifier.checkAddress\<close>; \<open>useRegtest\<close> is the static flag
  \<^verbatim>\<open>Verifier._useRegtest\<close>, which turns the network \<open>testnet\<close> into
  \<open>regtest\<close>.
\<close>

definition verifierNetwork :: "bool \<Rightarrow> credentials \<Rightarrow> string" where
  "verifierNetwork useRegtest creds =
    (if cr_network creds = ''testnet'' \<and> useRegtest then ''regtest'' else cr_network creds)"

definition checkAddress ::
  "('hd, 'pk, 'addr) walletLib \<Rightarrow> bool \<Rightarrow> credentials \<Rightarrow> wallet_address \<Rightarrow> utxo list option
    \<Rightarrow> verifier_error + bool" where
  "checkAddress lib useRegtest creds address escrowInputs =
    (if \<not> cr_isComplete creds then Inl StateError
     else case deriveAddress lib
            (case wa_type address of Some t \<Rightarrow> t | None \<Rightarrow> cr_addressType creds)
            (cr_publicKeyRing creds) (wa_path address) (cr_m creds)
            (verifierNetwork useRegtest creds) (cr_chain creds) escrowInputs
            (cr_hardwareSourcePublicKey creds) (cr_clientDerivedPublicKey creds) of
       Inl e \<Rightarrow> Inl e
     | Inr local \<Rightarrow>
         Inr (wa_address local = wa_address address
              \<and> filter (\<lambda>k. k \<notin> set (wa_publicKeys address)) (wa_publicKeys local) = []))"

section \<open>Specification predicates\<close>

text \<open>
  The exact fee of a transaction with \<open>k\<close> inputs, before rounding.
\<close>

definition feeFor :: "select_ctx \<Rightarrow> nat \<Rightarrow> rat" where
  "feeFor ctx k = sc_baseTxpFee ctx + of_nat k * sc_feePerInput ctx"

text \<open>
  What the loop of \<open>select\<close> maintains: the total is the sum of the selected
  inputs, the net total is the total less the exact fee, and the only error
  the loop records is the size limit.
\<close>

definition sel_inv :: "select_ctx \<Rightarrow> sel_state \<Rightarrow> bool" where
  "sel_inv ctx st \<longleftrightarrow>
     st_total st = sum_list (map utxo_satoshis (st_selected st))
     \<and> st_netTotal st = of_int (st_total st) - sc_baseTxpFee ctx
          - of_nat (length (st_selected st)) * sc_feePerInput ctx
     \<and> (st_error st = None \<or> st_error st = Some TX_MAX_SIZE_EXCEEDED)"






section \<open>Test scenarios\<close>

text \<open>
  A stand-in for the library, for the scenarios below: the key derived from
  \<open>xpub\<close> at \<open>path\<close> is the text \<open>xpub/path\<close>, and an input accepts
  exactly the signature \<open>sig:\<close> followed by that key.
\<close>

definition testLib :: "(string, string, string, utxo \<times> string list, unit) bitcoreLib" where
  "testLib =
    \<lparr> bl_buildTx = (\<lambda>p. if txp_inputs p = [] then None
          else Some \<lparr>tx_inputs = map (\<lambda>u. (u, [])) (txp_inputs p), tx_rest = ()\<rparr>),
      bl_HDPublicKey = (\<lambda>s. if s = [] then None else Some s),
      bl_deriveChild = (\<lambda>x path. case path of None \<Rightarrow> None | Some q \<Rightarrow> Some (x @ ''/'' @ q)),
      bl_Signature_fromString = (\<lambda>s. if s = [] then None else Some s),
      bl_addSignature = (\<lambda>inp tx s m.
          if ts_signature s = ''sig:'' @ ts_publicKey s then Some (fst inp, snd inp @ [ts_signature s])
          else None),
      bl_uncheckedSerialize = (\<lambda>tx. concat (map (\<lambda>i. concat (snd i)) (tx_inputs tx))),
      bl_id = (\<lambda>tx. ''id:'' @ concat (map (\<lambda>i. utxo_txid (fst i)) (tx_inputs tx))),
      bl_txids = (\<lambda>tx. None) \<rparr>"

definition mkUtxo :: "string \<Rightarrow> nat \<Rightarrow> string \<Rightarrow> int \<Rightarrow> int \<Rightarrow> bool \<Rightarrow> utxo" where
  "mkUtxo txid vout path sat conf locked =
    \<lparr>utxo_txid = txid, utxo_vout = vout, utxo_address = ''addr-'' @ txid, utxo_path = Some path,
     utxo_satoshis = sat, utxo_amount = of_int sat / 100000000, utxo_confirmations = conf,
     utxo_locked = locked\<rparr>"

text \<open>
  A proposal paying \<open>amount\<close> to one pay-to-public-key-hash address, with a
  change address of the same kind, for a wallet of \<open>m\<close> of \<open>n\<close> copayers.
\<close>

definition mkTxp :: "int \<Rightarrow> int \<Rightarrow> script_type \<Rightarrow> int \<Rightarrow> rat \<Rightarrow> TxProposal" where
  "mkTxp m n addressType amount feePerKb =
    \<lparr> txp_version = 3, txp_inputs = [], txp_inputPaths = [],
      txp_outputs = [\<lparr>out_amount = amount, out_toAddress = Some PubKeyHash, out_script = None\<rparr>],
      txp_outputOrder = [0, 1], txp_changeAddress = Some PubKeyHash,
      txp_walletM = m, txp_walletN = n, txp_requiredSignatures = m,
      txp_requiredRejections = min m (n - m + 1),
      txp_status = Temporary, txp_actions = [], txp_addressType = addressType,
      txp_feePerKb = feePerKb, txp_fee = None, txp_excludeUnconfirmedUtxos = False,
      txp_replaceTxByFee = False, txp_instantAcceptanceEscrow = None, txp_signingMethod = None,
      txp_multiTx = False, txp_raw = None, txp_txid = None, txp_txids = None,
      txp_broadcastedOn = None \<rparr>"

text \<open>
  Scenario B: a pending proposal of a 2-of-3 wallet that has one reject vote.
  Scenario C: a pending proposal with three inputs.
\<close>

definition scenarioB :: TxProposal where
  "scenarioB = reject ((mkTxp 2 3 P2SH 10000 1000)\<lparr>txp_status := Pending\<rparr>) ''copayer1'' None"

definition scenarioC :: TxProposal where
  "scenarioC = (setInputs (mkTxp 2 3 P2SH 10000 1000)
      [mkUtxo ''aa'' 0 ''m/0/0'' 5000 6 False, mkUtxo ''bb'' 1 ''m/0/1'' 4000 6 False,
       mkUtxo ''cc'' 0 ''m/0/2'' 3000 6 False])\<lparr>txp_status := Pending, txp_fee := Some 1000\<rparr>"

definition createOpts23 :: create_opts where
  "createOpts23 =
    \<lparr> co_version = None, co_network_ok = True,
      co_outputs = [\<lparr>out_amount = 10000, out_toAddress = Some PubKeyHash, out_script = None\<rparr>],
      co_inputs = [], co_changeAddress = Some PubKeyHash, co_walletM = 2, co_walletN = 3,
      co_addressType = None, co_feePerKb = 1000, co_fee = None,
      co_excludeUnconfirmedUtxos = False, co_replaceTxByFee = False,
      co_instantAcceptanceEscrow = None, co_signingMethod = None, co_multiTx = False,
      co_noShuffleOutputs = True \<rparr>"


text \<open>
  A pending proposal that carries a transaction id, as one read back from
  storage may; and an accepted proposal that is not broadcast yet.
\<close>

definition pendingWithTxid :: TxProposal where
  "pendingWithTxid = scenarioC\<lparr>txp_txid := Some ''f00d''\<rparr>"

definition acceptedProposal :: TxProposal where
  "acceptedProposal = scenarioC\<lparr>txp_status := Accepted, txp_txid := Some ''f00d''\<rparr>"

text \<open>
  A stand-in for the signature scheme: the public key of \<open>k\<close> is \<open>pub:k\<close>,
  and the signature of a message under that key is the message followed by
  \<open>/\<close> and the key.
\<close>

definition testCrypto :: "(string, string) cryptoLib" where
  "testCrypto =
    \<lparr> cl_toPublicKey = (\<lambda>k. if k = [] then None else Some (''pub:'' @ k)),
      cl_PublicKey = (\<lambda>s. if s = [] then None else Some s),
      cl_hashMessage = (\<lambda>m. m),
      cl_verify = (\<lambda>h sg pub. Some (sg = h @ ''/'' @ pub)) \<rparr>"

definition mkCopayer :: "string \<Rightarrow> string \<Rightarrow> string \<Rightarrow> copayer" where
  "mkCopayer name xPubKey requestPubKey =
    \<lparr> cp_name = Some name, cp_encryptedName = None, cp_xPubKey = Some xPubKey,
      cp_requestPubKey = Some requestPubKey,
      cp_signature = Some (getCopayerHash name xPubKey requestPubKey @ ''/pub:walletkey'') \<rparr>"

definition testCredentials :: credentials where
  "testCredentials =
    \<lparr> cr_isComplete = True, cr_walletPrivKey = Some ''walletkey'', cr_xPubKey = Some ''xpubA'',
      cr_m = 2, cr_n = 2, cr_network = ''testnet'', cr_chain = Some ''btc'', cr_addressType = P2SH,
      cr_publicKeyRing = [\<lparr>kr_xPubKey = ''xpubA'', kr_requestPubKey = ''reqA''\<rparr>,
                          \<lparr>kr_xPubKey = ''xpubB'', kr_requestPubKey = ''reqB''\<rparr>],
      cr_hardwareSourcePublicKey = None, cr_clientDerivedPublicKey = None \<rparr>"

text \<open>
  A stand-in for the address library: a derived key is the extended key
  followed by the path, and an address spells out what it was built from.
\<close>

definition testWalletLib :: "(string, string, string) walletLib" where
  "testWalletLib =
    \<lparr> wl_UTXO_CHAINS = [''btc'', ''bch'', ''doge'', ''ltc''],
      wl_Deriver_getAddress = (\<lambda>chain network key t. Some (chain @ '':'' @ network @ '':'' @ key)),
      wl_Deriver_deriveAddress = (\<lambda>chain network xpub index isChange.
          Some (chain @ '':'' @ network @ '':'' @ xpub @ ''/'' @ index)),
      wl_HDPublicKey = (\<lambda>bitcore s. if s = [] then None else Some s),
      wl_deriveChild = (\<lambda>bitcore x path. case path of None \<Rightarrow> None | Some q \<Rightarrow> Some (x @ ''/'' @ q)),
      wl_createMultisig = (\<lambda>bitcore keys m network t.
          if keys = [] then None else Some (''multisig:'' @ network @ '':'' @ concat keys)),
      wl_createEscrow = (\<lambda>bitcore keys key network.
          case key of None \<Rightarrow> None | Some k \<Rightarrow> Some (''escrow:'' @ network @ '':'' @ k @ concat keys)),
      wl_fromPublicKey = (\<lambda>bitcore key network t.
          case key of None \<Rightarrow> None | Some k \<Rightarrow> Some (''key:'' @ network @ '':'' @ k)),
      wl_address_toString = (\<lambda>a cashAddr. a),
      wl_publicKey_toString = (\<lambda>k. k) \<rparr>"

definition testAddress :: wallet_address where
  "testAddress =
    \<lparr> wa_address = ''multisig:regtest:xpubA/m/0/5xpubB/m/0/5'', wa_path = ''m/0/5'',
      wa_publicKeys = [''xpubA/m/0/5'', ''xpubB/m/0/5''], wa_type = None \<rparr>"

definition testnetAddress :: wallet_address where
  "testnetAddress =
    \<lparr> wa_address = ''multisig:testnet:xpubA/m/0/5xpubB/m/0/5'', wa_path = ''m/0/5'',
      wa_publicKeys = [''xpubA/m/0/5'', ''xpubB/m/0/5''], wa_type = None \<rparr>"

text \<open>
  The Bitcoin chain with its default margins and the library's dust amount;
  selection and fee options that set nothing.
\<close>

definition btcChain :: BtcChain where
  "btcChain = \<lparr>sizeEstimationMargin = 1 / 100, inputSizeEstimationMargin = 2, DUST_AMOUNT = 546\<rparr>"

definition noSelectOpts :: select_opts where
  "noSelectOpts = \<lparr>so_payProUrl = None, so_instantAcceptanceEscrow = None, so_utxosToExclude = [],
      so_inputs = []\<rparr>"


text \<open>
  Scenario A: a 2-of-3 wallet, outputs of 5000, 3000 and 1000, a payment of 4000
  at 1000 per kilobyte; the same with an escrow of 500 for a payment request.
\<close>

definition scenarioA :: TxProposal where
  "scenarioA = (mkTxp 2 3 P2SH 4000 1000)\<lparr>txp_changeAddress := Some ScriptHash\<rparr>"

definition utxosA :: "utxo list" where
  "utxosA = [mkUtxo ''aa'' 0 ''m/0/0'' 5000 6 False, mkUtxo ''bb'' 1 ''m/0/1'' 3000 6 False,
             mkUtxo ''cc'' 0 ''m/0/2'' 1000 6 False]"



text \<open>
  A payment of 10000 from outputs of 9800, 900 and 50000; and a payment of 546
  at 250 per kilobyte from a single output of 1149.
\<close>

definition dustExample :: TxProposal where
  "dustExample = mkTxp 1 1 P2PKH 10000 1000"




text \<open>
  A replacement of a transaction that spent output 0 of \<open>aa\<close>, paying 30000
  and excluding unconfirmed outputs; and outputs it may meet.
\<close>

definition rbfTxp :: TxProposal where
  "rbfTxp = (setInputs (mkTxp 1 1 P2PKH 30000 1000) [mkUtxo ''aa'' 0 ''m/0/0'' 1000 6 False])
      \<lparr>txp_replaceTxByFee := True, txp_excludeUnconfirmedUtxos := True\<rparr>"

definition rbfOpts :: select_opts where
  "rbfOpts = \<lparr>so_payProUrl = None, so_instantAcceptanceEscrow = None, so_utxosToExclude = [],
      so_inputs = [mkUtxo ''aa'' 0 ''m/0/0'' 1000 6 False]\<rparr>"

definition rbfUtxos :: "utxo list" where
  "rbfUtxos = [mkUtxo ''aa'' 0 ''m/0/0'' 1000 6 False, mkUtxo ''bb'' 0 ''m/0/1'' 100000 6 False]"




section \<open>Properties of the proposal state machine\<close>

lemma updateStatus_not_pending: "txp_status p \<noteq> Pending \<Longrightarrow> updateStatus p = p"
  by (simp add: updateStatus_def)

lemma addAction_status_not_pending:
  "txp_status p \<noteq> Pending \<Longrightarrow> txp_status (addAction p c ty cm sg xp) = txp_status p"
  by (simp add: addAction_def updateStatus_def)

lemma sign_status_not_pending:
  "txp_status p \<noteq> Pending \<Longrightarrow> txp_status (snd (sign lib p c sg xp)) = txp_status p"
  by (auto simp: sign_def Let_def addAction_status_not_pending split: option.splits)

lemma applyVote_status_rejected:
  "txp_status p = Rejected \<Longrightarrow> txp_status (applyVote lib p v) = Rejected"
  by (cases v)
    (simp_all add: applyVote_def reject_def sign_status_not_pending addAction_status_not_pending)

lemma applyVotes_status_rejected:
  "txp_status p = Rejected \<Longrightarrow> txp_status (applyVotes lib p vs) = Rejected"
  unfolding applyVotes_def
  by (induction vs arbitrary: p) (simp_all add: applyVote_status_rejected)

lemma create_requiredRejections:
  "create shuffle opts = Inr x \<Longrightarrow>
     txp_requiredRejections x = min (co_walletM opts) (co_walletN opts - co_walletM opts + 1)"
  by (auto simp: create_def Let_def setInputs_def split: if_splits)

lemma reject_reaches_quorum:
  assumes "txp_status p = Pending"
    and "txp_requiredRejections p
          \<le> int (length (filter (\<lambda>a. act_type a = Reject) (txp_actions (reject p c r))))"
  shows "txp_status (reject p c r) = Rejected"
proof -
  let ?q = "p\<lparr>txp_actions := txp_actions p @
      [\<lparr>act_copayerId = c, act_type = Reject, act_signatures = None,
        act_xpub = None, act_comment = r\<rparr>]\<rparr>"
  have acts: "txp_actions (reject p c r) = txp_actions ?q"
    by (simp add: reject_def addAction_def updateStatus_def)
  have "isRejected ?q"
    using assms(2) unfolding acts by (simp add: isRejected_def countBy_type_def Let_def)
  then show ?thesis
    using assms(1) by (simp add: reject_def addAction_def updateStatus_def)
qed

text \<open>
  C3.  A proposal is created with \<open>requiredRejections = min m (n - m + 1)\<close>.
  When a reject vote on a pending proposal brings the number of reject actions
  to \<open>requiredRejections\<close> or more, the status becomes rejected, and it stays
  rejected after any further votes, accepts included: it never becomes accepted.
\<close>

theorem quorum_safety:
  "(create shuffle opts = Inr x \<longrightarrow>
      txp_requiredRejections x = min (co_walletM opts) (co_walletN opts - co_walletM opts + 1))
   \<and> (txp_status p = Pending \<and>
       txp_requiredRejections p \<le>
         int (length (filter (\<lambda>a. act_type a = Reject) (txp_actions (reject p c r))))
      \<longrightarrow> txp_status (reject p c r) = Rejected
          \<and> (\<forall>vs. txp_status (applyVotes lib (reject p c r) vs) = Rejected))"
  using create_requiredRejections reject_reaches_quorum applyVotes_status_rejected by blast

theorem quorum_safety_witness:
  "create id createOpts23 = Inr (mkTxp 2 3 P2SH 10000 1000)
   \<and> txp_requiredRejections (mkTxp 2 3 P2SH 10000 1000) = min 2 (3 - 2 + 1)
   \<and> txp_status scenarioB = Pending
   \<and> txp_status (reject scenarioB ''copayer2'' None) = Rejected
   \<and> txp_status (applyVotes testLib (reject scenarioB ''copayer2'' None)
        [AcceptVote ''copayer3'' [''sig''] ''xpub3'']) = Rejected"
proof -
  have created: "create id createOpts23 = Inr (mkTxp 2 3 P2SH 10000 1000)"
    by (simp add: create_def createOpts23_def mkTxp_def setInputs_def Let_def)
  have pending: "txp_status scenarioB = Pending"
    by (simp add: scenarioB_def mkTxp_def reject_def addAction_def updateStatus_def
        isRejected_def isAccepted_def countBy_type_def Let_def)
  have quorum: "txp_requiredRejections scenarioB
      \<le> int (length (filter (\<lambda>a. act_type a = Reject)
            (txp_actions (reject scenarioB ''copayer2'' None))))"
    by (simp add: scenarioB_def mkTxp_def reject_def addAction_def updateStatus_def
        isRejected_def isAccepted_def countBy_type_def Let_def)
  from quorum_safety [of id createOpts23 "mkTxp 2 3 P2SH 10000 1000" scenarioB
      "''copayer2''" None testLib] created pending quorum
  show ?thesis by (simp add: mkTxp_def)
qed

subsection \<open>Signing is all or nothing\<close>











lemma scenarioC_fields:
  "txp_inputs scenarioC =
     [mkUtxo ''aa'' 0 ''m/0/0'' 5000 6 False, mkUtxo ''bb'' 1 ''m/0/1'' 4000 6 False,
      mkUtxo ''cc'' 0 ''m/0/2'' 3000 6 False]"
  "txp_inputPaths scenarioC = [Some ''m/0/0'', Some ''m/0/1'', Some ''m/0/2'']"
  "txp_signingMethod scenarioC = None"
  "txp_multiTx scenarioC = False"
  "txp_actions scenarioC = []"
  "txp_status scenarioC = Pending"
  by (simp_all add: scenarioC_def setInputs_def mkTxp_def mkUtxo_def)



text \<open>The same proposal accepts the three signatures its inputs expect.\<close>

lemma sign_valid_signatures_example:
  "fst (sign testLib scenarioC ''copayer1''
         [''sig:xpub1/m/0/0'', ''sig:xpub1/m/0/1'', ''sig:xpub1/m/0/2''] ''xpub1'') = True
   \<and> length (txp_actions (snd (sign testLib scenarioC ''copayer1''
         [''sig:xpub1/m/0/0'', ''sig:xpub1/m/0/1'', ''sig:xpub1/m/0/2''] ''xpub1''))) = 1"
  by (simp add: sign_def getBitcoreTx_def getCurrentSignatures_def scenarioC_fields testLib_def
      addSignaturesToBitcoreTx_def trySignature_def js_index_def js_or_def truthy_def
      addAction_def updateStatus_def isRejected_def isAccepted_def countBy_type_def Let_def
      mkUtxo_def)



subsection \<open>Broadcast and the pending flag\<close>

text \<open>
  C7, as the code has it.  \<open>setBroadcasted\<close> looks at the transaction id
  only: with a known id it succeeds whatever the status is, sets the status to
  broadcasted and records the time in seconds; without one it fails and
  nothing is changed.
\<close>

theorem setBroadcasted_requires_txid:
  "(truthy (txp_txid p) \<longrightarrow>
      setBroadcasted now p
        = Inr (p\<lparr>txp_status := Broadcasted, txp_broadcastedOn := Some (now div 1000)\<rparr>))
   \<and> (\<not> truthy (txp_txid p) \<longrightarrow> setBroadcasted now p = Inl FailedState)"
  by (simp add: setBroadcasted_def)

theorem setBroadcasted_requires_txid_witness:
  "truthy (txp_txid acceptedProposal)
   \<and> setBroadcasted 1700000000123 acceptedProposal
       = Inr (acceptedProposal\<lparr>txp_status := Broadcasted, txp_broadcastedOn := Some 1700000000\<rparr>)
   \<and> \<not> truthy (txp_txid scenarioC)
   \<and> setBroadcasted 1700000000123 scenarioC = Inl FailedState"
proof -
  have known: "truthy (txp_txid acceptedProposal)"
    by (simp add: acceptedProposal_def truthy_def)
  have unknown: "\<not> truthy (txp_txid scenarioC)"
    by (simp add: scenarioC_def setInputs_def mkTxp_def truthy_def)
  from setBroadcasted_requires_txid [of acceptedProposal 1700000000123]
    setBroadcasted_requires_txid [of scenarioC 1700000000123] known unknown
  show ?thesis by simp
qed

text \<open>
  The claim as written fails: a pending proposal with a transaction id is
  marked broadcasted.
\<close>

theorem setBroadcasted_pending_counterexample:
  "txp_status pendingWithTxid = Pending
   \<and> setBroadcasted 1700000000123 pendingWithTxid
       = Inr (pendingWithTxid\<lparr>txp_status := Broadcasted, txp_broadcastedOn := Some 1700000000\<rparr>)"
  by (simp add: pendingWithTxid_def scenarioC_fields setBroadcasted_def truthy_def)

text \<open>
  C10.  An accepted proposal is pending in the sense of \<open>isPending\<close>, and
  \<open>toObject\<close> reports it so, beside an unchanged copy of the proposal.
\<close>

theorem accepted_isPending:
  "txp_status p = Accepted \<Longrightarrow> isPending p \<and> toObject p = (p, True)"
  by (simp add: isPending_def toObject_def)

theorem accepted_isPending_witness:
  "txp_status acceptedProposal = Accepted
   \<and> isPending acceptedProposal \<and> toObject acceptedProposal = (acceptedProposal, True)"
proof -
  have "txp_status acceptedProposal = Accepted"
    by (simp add: acceptedProposal_def)
  with accepted_isPending [of acceptedProposal] show ?thesis by simp
qed

section \<open>Properties of the verifier\<close>

text \<open>
  C8 at a list with a repeated extended public key: two copayers, both with
  the key \<open>xpubA\<close>, both signed by the wallet key.  The table of seen keys is
  read at the key \<open>undefined\<close> and holds \<open>NaN\<close>, so the check for a repeat
  never fires and the list is accepted.
\<close>

theorem checkCopayers_repeated_xpub:
  "cp_xPubKey (mkCopayer ''alice'' ''xpubA'' ''reqA'') = cp_xPubKey (mkCopayer ''bob'' ''xpubA'' ''reqB'')
   \<and> checkCopayers testCrypto testCredentials
        [mkCopayer ''alice'' ''xpubA'' ''reqA'', mkCopayer ''bob'' ''xpubA'' ''reqB'']
       = Inr (Some True)"
  by (simp add: checkCopayers_def testCrypto_def testCredentials_def mkCopayer_def
      postIncrement_def js_number_truthy_def verifyMessage_def getCopayerHash_def
      truthy_def js_or_def Let_def)

text \<open>A copayer without a signature is refused, so the check is not idle.\<close>

lemma checkCopayers_missing_signature_example:
  "checkCopayers testCrypto testCredentials
     [mkCopayer ''alice'' ''xpubA'' ''reqA'',
      (mkCopayer ''bob'' ''xpubB'' ''reqB'')\<lparr>cp_signature := None\<rparr>]
    = Inr (Some False)"
  by (simp add: checkCopayers_def testCrypto_def testCredentials_def mkCopayer_def
      postIncrement_def js_number_truthy_def verifyMessage_def getCopayerHash_def
      truthy_def js_or_def Let_def)

text \<open>The seen-before test reads \<open>NaN\<close> on every round, whatever the copayers are.\<close>

lemma postIncrement_never_truthy:
  "uniq k = None \<or> uniq k = Some NaN \<Longrightarrow>
     \<not> js_number_truthy (fst (postIncrement uniq k))
     \<and> snd (postIncrement uniq k) k = Some NaN"
  by (auto simp: postIncrement_def js_number_truthy_def Let_def)

subsection \<open>Address round trip\<close>










text \<open>
  With the regtest flag set, the verifier derives for \<open>regtest\<close>: the address
  derived for \<open>testnet\<close> from the same credentials does not pass then.
\<close>

lemma checkAddress_regtest_flag_example:
  "cr_network testCredentials = ''testnet''
   \<and> checkAddress testWalletLib True testCredentials testnetAddress None = Inr False"
  by (simp add: checkAddress_def deriveAddress_def testWalletLib_def testCredentials_def
      testnetAddress_def verifierNetwork_def Bitcore_by_chain_def derivePublicKey_def
      deriveByScriptType_def derivedResult_def js_or_def truthy_def Let_def)

text \<open>A report with another address for the same path does not pass.\<close>

lemma checkAddress_other_address_example:
  "checkAddress testWalletLib True testCredentials
     (testAddress\<lparr>wa_address := ''multisig:regtest:xpubA/m/0/5xpubC/m/0/5''\<rparr>) None = Inr False"
  by (simp add: checkAddress_def deriveAddress_def testWalletLib_def testCredentials_def
      testAddress_def verifierNetwork_def Bitcore_by_chain_def derivePublicKey_def
      deriveByScriptType_def derivedResult_def js_or_def truthy_def Let_def)

section \<open>Properties of the fee estimate\<close>

lemma Math_round_le: "x \<le> of_int n \<Longrightarrow> Math_round x \<le> n"
  by (simp add: Math_round_def floor_le_iff)

lemma Math_round_of_int: "Math_round (of_int n) = n"
  by (simp add: Math_round_def floor_eq_iff)



lemma Math_round_le_ceiling: "Math_round x \<le> \<lceil>x\<rceil>"
  by (rule Math_round_le) (simp add: le_of_int_ceiling)








section \<open>Properties of the coin selection\<close>

subsection \<open>The loop over the small inputs\<close>

lemma accumulate_fields:
  "st_selected (accumulate ctx st input) = st_selected st @ [input]"
  "st_total (accumulate ctx st input) = st_total st + utxo_satoshis input"
  "st_netTotal (accumulate ctx st input)
     = st_netTotal st + (of_int (utxo_satoshis input) - sc_feePerInput ctx)"
  "st_fee (accumulate ctx st input)
     = Some (Math_round (feeFor ctx (Suc (length (st_selected st)))))"
  "st_fullTxpAmount (accumulate ctx st input)
     = (if sc_escrowAmount ctx \<noteq> 0
        then sc_txpAmount ctx + Math_round (feeFor ctx (Suc (length (st_selected st))))
        else sc_txpAmount ctx)"
  "st_error (accumulate ctx st input) = st_error st"
  by (simp_all add: accumulate_def Let_def feeFor_def)

lemma accumulate_inv:
  assumes "sel_inv ctx st"
  shows "sel_inv ctx (accumulate ctx st input)"
  using assms by (simp add: sel_inv_def accumulate_fields algebra_simps)






lemma removeDustChange_inv:
  "sel_inv ctx st \<Longrightarrow> sel_inv ctx (removeDustChange ctx st fee)"
  by (simp add: removeDustChange_def sel_inv_def Let_def)

lemma removeDustChange_selected:
  "st_selected (removeDustChange ctx st fee) = st_selected st"
  by (simp add: removeDustChange_def Let_def)

lemma selectStep_result:
  assumes "selectStep ctx hasBig st input = (b, st')"
  shows "st' = accumulate ctx st input
       \<or> st' = (accumulate ctx st input)\<lparr>st_error := Some TX_MAX_SIZE_EXCEEDED\<rparr>
       \<or> st' = removeDustChange ctx (accumulate ctx st input)
                 (Math_round (feeFor ctx (Suc (length (st_selected st)))))"
  using assms
  by (simp add: selectStep_def Let_def accumulate_fields feeFor_def split: if_splits)

lemma selectStep_inv:
  assumes "sel_inv ctx st" and "selectStep ctx hasBig st input = (b, st')"
  shows "sel_inv ctx st'"
proof -
  note acc = accumulate_inv [OF assms(1), of input]
  from selectStep_result [OF assms(2)] show ?thesis
  proof (elim disjE)
    assume "st' = accumulate ctx st input"
    with acc show ?thesis by simp
  next
    assume "st' = (accumulate ctx st input)\<lparr>st_error := Some TX_MAX_SIZE_EXCEEDED\<rparr>"
    with acc show ?thesis by (simp add: sel_inv_def)
  next
    assume "st' = removeDustChange ctx (accumulate ctx st input)
                 (Math_round (feeFor ctx (Suc (length (st_selected st)))))"
    with acc show ?thesis by (simp add: removeDustChange_inv)
  qed
qed


lemma eachSmallInput_inv:
  "sel_inv ctx st \<Longrightarrow> sel_inv ctx (eachSmallInput ctx hasBig st inputs)"
proof (induction inputs arbitrary: st)
  case Nil
  then show ?case by simp
next
  case (Cons input rest)
  obtain b st' where step: "selectStep ctx hasBig st input = (b, st')"
    by (cases "selectStep ctx hasBig st input")
  from selectStep_inv [OF Cons.prems step] have "sel_inv ctx st'" .
  with step Cons.IH [of st'] show ?case by (cases b) simp_all
qed


subsection \<open>The fallback, the closure and the ladder\<close>



lemma bigInputFallback_error:
  "st_error (bigInputFallback ctx bigs st) = st_error st"
  by (simp add: bigInputFallback_def Let_def split: list.splits)


lemma initial_state_inv:
  "sel_inv ctx \<lparr>st_total = 0, st_netTotal = - sc_baseTxpFee ctx, st_selected = [],
                st_fullTxpAmount = sc_txpAmount ctx, st_fee = None, st_error = None\<rparr>"
  by (simp add: sel_inv_def)


lemma select_error:
  assumes "select ctx utxos requiredInputs = Inl e"
  shows "e = INSUFFICIENT_FUNDS \<or> e = INSUFFICIENT_FUNDS_FOR_FEE \<or> e = TX_MAX_SIZE_EXCEEDED"
proof -
  define required where "required = requiredTxids ctx requiredInputs"
  define worth where "worth = worthUtxos ctx required utxos"
  define bigs where "bigs = bigInputs ctx required worth"
  define smalls where "smalls = smallInputs ctx required worth"
  define st0 where "st0 = \<lparr>st_total = 0, st_netTotal = - sc_baseTxpFee ctx, st_selected = [],
                st_fullTxpAmount = sc_txpAmount ctx, st_fee = None, st_error = None\<rparr>"
  define st1 where "st1 = eachSmallInput ctx (bigs \<noteq> []) st0 smalls"
  have inv0: "sel_inv ctx st0" unfolding st0_def by (rule initial_state_inv)
  have "sel_inv ctx st1" unfolding st1_def by (rule eachSmallInput_inv [OF inv0])
  then have "st_error (bigInputFallback ctx bigs st1) = None
      \<or> st_error (bigInputFallback ctx bigs st1) = Some TX_MAX_SIZE_EXCEEDED"
    by (simp add: sel_inv_def bigInputFallback_error)
  with assms show ?thesis
    unfolding select_def Let_def st1_def st0_def smalls_def bigs_def worth_def required_def
    by (auto split: if_splits)
qed







lemma scenarioA_selection:
  "selectTxInputs btcChain scenarioA False noSelectOpts utxosA
     = Selected [mkUtxo ''aa'' 0 ''m/0/0'' 5000 6 False] (Some 370)"
  by code_simp

subsection \<open>Change at or below the dust threshold\<close>


text \<open>
  Where the loop ends because the amount is reached, the change is added to the
  fee: that branch folds it.
\<close>

lemma removeDustChange_folds:
  assumes "0 < st_total st - st_fullTxpAmount st - fee"
    and "st_total st - st_fullTxpAmount st - fee \<le> max MIN_OUTPUT_AMOUNT (sc_DUST_AMOUNT ctx)"
  shows "st_fee (removeDustChange ctx st fee) = Some (fee + (st_total st - st_fullTxpAmount st - fee))"
proof -
  have "of_int (st_total st) - of_int (st_fullTxpAmount st) - (of_int fee :: rat)
        = of_int (st_total st - st_fullTxpAmount st - fee)" by simp
  then have "Math_round (of_int (st_total st) - of_int (st_fullTxpAmount st) - of_int fee)
        = st_total st - st_fullTxpAmount st - fee"
    by (simp only: Math_round_of_int)
  with assms show ?thesis by (simp add: removeDustChange_def Let_def)
qed

lemma dust_folded_example:
  "selectTxInputs btcChain dustExample False noSelectOpts [mkUtxo ''aa'' 0 ''m/0/0'' 10500 6 False]
     = Selected [mkUtxo ''aa'' 0 ''m/0/0'' 10500 6 False] (Some 500)"
  by code_simp

subsection \<open>Replace-by-fee\<close>








text \<open>
  A replacement can also end without any input of the replaced transaction:
  the only small candidate is the replaced input, it contributes too little,
  and the fallback takes the big output of another transaction.
\<close>

lemma replacement_without_replaced_input_example:
  "txp_replaceTxByFee rbfTxp
   \<and> map utxo_txid (txp_inputs rbfTxp) = [''aa'']
   \<and> selectTxInputs btcChain rbfTxp False rbfOpts rbfUtxos
       = Selected [mkUtxo ''bb'' 0 ''m/0/1'' 100000 6 False] (Some 374)"
  by code_simp

end
